theory Spec2Isabelle
  imports Complex_Main "HOL-Library.Sublist"
begin

section \<open>Values, objects and the script heap\<close>

text \<open>
  The two scripts (\<^verbatim>\<open>2dline.ts\<close> for PlayCanvas, \<^verbatim>\<open>part_000\<close> for BabylonJS) are straight-line
  \<^verbatim>\<open>async function start()\<close> bodies.  They allocate option objects with \<^verbatim>\<open>new\<close>, assign
  their fields one by one, and hand them to functions of the bitbybit packages.

  A JavaScript number is modelled as a real.  The scripts compute only \<open>5 + 5\<close>,
  \<open>5 + 5 / 2\<close>, \<open>3 / 2\<close> and \<open>15 / 2\<close> (negated), on small integers: operands and results are
  dyadic rationals that binary64 represents exactly, so this arithmetic is exact.  The literals
  \<open>0.2\<close>, \<open>0.3\<close> and \<open>0.5\<close> are stored in option objects and never computed with.

  A \<^verbatim>\<open>Point3\<close> is the tuple type \<^verbatim>\<open>[number, number, number]\<close>.
\<close>

type_synonym Point3 = "real \<times> real \<times> real"

type_synonym ref = nat

text \<open>
  Values the scripts store in object fields.  \<open>Host h\<close> is an opaque object owned by the
  libraries (a shape pointer, a scene, an engine); the scripts never look inside one.
\<close>

datatype 'h jsval =
    Num real
  | Str string
  | Bool bool
  | Vec3 Point3
  | Ref ref
  | Host 'h

text \<open>
  The property names the scripts assign, and the classes of \<^verbatim>\<open>Inputs\<close> they instantiate.
  (\<open>size'\<close> is the property \<^verbatim>\<open>size\<close> of \<^verbatim>\<open>DrawBasicGeometryOptions\<close>.)
\<close>

datatype field =
    canvasId | sceneSize | enableShadows | enableGround | groundColor | groundCenter
  | orbitCameraOptions | yaw | pitch | distance | inertiaFactor
  | arcRotateCameraOptions | alpha | beta | radius
  | enableOCCT | enableJSCAD | enableManifold
  | edgeColour | edgeWidth | drawEdges | drawFaces | faceColour | faceOpacity
  | drawTwoSided | backFaceOpacity | backFaceColour
  | shape | direction | angle | colours | size'

datatype cls =
    InitPlayCanvasDto | OrbitCameraDto | InitBabylonJSDto | ArcRotateCameraDto
  | DrawOcctShapeOptions | DrawBasicGeometryOptions | RevolveDto

text \<open>An object is its table of properties; the heap holds the objects the script allocated.\<close>

type_synonym 'h obj = "field \<rightharpoonup> 'h jsval"

type_synonym 'h heap = "ref \<Rightarrow> 'h obj"

section \<open>The profile\<close>

text \<open>
  \<^verbatim>\<open>const offsetFromAxis = 5; const profileWidth = 5; const profileHeight = 3;\<close>
  (the same three lines in both scripts).
\<close>

definition offsetFromAxis :: real where
  "offsetFromAxis = 5"

definition profileWidth :: real where
  "profileWidth = 5"

definition profileHeight :: real where
  "profileHeight = 3"

text \<open>
  The array literal of \<^verbatim>\<open>2dline.ts\<close>, lines 69 to 75, as a function of the three constants
  it mentions.
\<close>

definition profile_playcanvas :: "real \<Rightarrow> real \<Rightarrow> real \<Rightarrow> Point3 list" where
  "profile_playcanvas off w h =
     [ (off, 0, 0),
       (off, h, 0),
       (off + w, h, 0),
       (off + w, 0, 0),
       (off, 0, 0) ]"

text \<open>The array literal of \<^verbatim>\<open>part_000\<close>, lines 68 to 75: one more point, a notch at mid height.\<close>

definition profile_babylonjs :: "real \<Rightarrow> real \<Rightarrow> real \<Rightarrow> Point3 list" where
  "profile_babylonjs off w h =
     [ (off, 0, 0),
       (off, h, 0),
       (off + w, h, 0),
       (off + w / 2, h / 2, 0),
       (off + w, 0, 0),
       (off, 0, 0) ]"

definition profilePoints_playcanvas :: "Point3 list" where
  "profilePoints_playcanvas = profile_playcanvas offsetFromAxis profileWidth profileHeight"

definition profilePoints_babylonjs :: "Point3 list" where
  "profilePoints_babylonjs = profile_babylonjs offsetFromAxis profileWidth profileHeight"

text \<open>\<^verbatim>\<open>const axisHeight = 15; const axisPoints = [[0, -axisHeight / 2, 0], [0, axisHeight / 2, 0]]\<close>\<close>

definition axisHeight :: real where
  "axisHeight = 15"

definition axisPoints :: "Point3 list" where
  "axisPoints = [ (0, - axisHeight / 2, 0), (0, axisHeight / 2, 0) ]"

text \<open>Coordinates of a point, and the properties of a profile the specification names.\<close>

fun xCoord :: "Point3 \<Rightarrow> real" where
  "xCoord (x, y, z) = x"

fun yCoord :: "Point3 \<Rightarrow> real" where
  "yCoord (x, y, z) = y"

fun zCoord :: "Point3 \<Rightarrow> real" where
  "zCoord (x, y, z) = z"

text \<open>Closed and non-degenerate: at least three points, the first equal to the last.\<close>

definition closedProfile :: "Point3 list \<Rightarrow> bool" where
  "closedProfile ps = (3 \<le> length ps \<and> hd ps = last ps)"

text \<open>Distance of a point from the Y axis, the axis of the revolution.\<close>

definition distFromYAxis :: "Point3 \<Rightarrow> real" where
  "distFromYAxis p = sqrt ((xCoord p)\<^sup>2 + (zCoord p)\<^sup>2)"

section \<open>Calls into the libraries, and what a run leaves behind\<close>

text \<open>
  What \<^verbatim>\<open>bitbybit.draw.drawAnyAsync\<close> is given as \<^verbatim>\<open>entity\<close>: an OCCT shape pointer or the
  polyline object \<^verbatim>\<open>{ points: axisPoints }\<close>.
\<close>

datatype 'h entity = OcctShape 'h | Polyline3 "Point3 list"

text \<open>
  One constructor for each library function the scripts call, with the arguments of the call.
  An argument that is an object the script allocated is given by its reference and by its
  properties at the time of the call; \<open>InitPlayCanvas\<close> and \<open>InitBabylonJS\<close> name the reference
  only (their callee is handed the heap, see below).  The first argument of the
  \<^verbatim>\<open>bitbybit.\<close> functions is the \<^verbatim>\<open>BitByBitBase\<close> instance they are called on; the argument
  of \<open>RunRenderLoop\<close> after the engine is the callback.
\<close>

datatype ('w, 'e, 'h) request =
    InitPlayCanvas ref
  | InitBabylonJS ref
  | NewBitByBitBase
  | InitBitByBit "'h list" "'h obj"
  | CreatePolylineWire 'h "Point3 list"
  | DrawAnyAsync 'h "'h entity" ref "'h obj"
  | CreateFaceFromWire 'h 'h bool
  | Revolve 'h ref "'h obj"
  | RunRenderLoop 'h "'w \<Rightarrow> ('e + unit) \<times> 'w"

text \<open>
  A call ends in an exception or rejected promise carrying a value of \<open>'e\<close>, or it returns;
  \<open>Fulfilled\<close> lists the opaque objects it returned.
\<close>

datatype ('e, 'h) outcome = Rejected 'e | Fulfilled "'h list"

text \<open>
  The observable history of a run: a call is issued, a call completes, a line is written
  with \<^verbatim>\<open>console.log\<close>.
\<close>

datatype ('w, 'e, 'h) event =
    Issued "('w, 'e, 'h) request"
  | Settled "('w, 'e, 'h) request" "('e, 'h) outcome"
  | ConsoleLog string

text \<open>
  The state a script runs in: \<open>world\<close> is everything the libraries own (the kernel, the
  scene, the renderer), of an unknown type \<open>'w\<close>; \<open>heap\<close> and \<open>nextRef\<close> are the objects the
  script itself allocated.
\<close>

record ('w, 'e, 'h) state =
  world :: 'w
  heap :: "'h heap"
  nextRef :: ref
  trace :: "('w, 'e, 'h) event list"

text \<open>
  A piece of script either throws (\<open>Inl\<close>) or completes (\<open>Inr\<close>); in both cases it leaves a
  state.  The statements below are written in continuation style: the last argument is the
  rest of the function body.
\<close>

type_synonym ('w, 'e, 'h, 'a) script =
  "('w, 'e, 'h) state \<Rightarrow> ('e + 'a) \<times> ('w, 'e, 'h) state"

text \<open>
  A call that has been made and has not completed: the request, what the library will do
  to its world and answer, and which opaque objects an answer holds.
\<close>

datatype ('w, 'e, 'h, 'a) pending =
  Pending (request: "('w, 'e, 'h) request")
          (perform: "'w \<Rightarrow> ('e + 'a) \<times> 'w")
          (handlesOf: "'a \<Rightarrow> 'h list")

text \<open>The end of the function body.\<close>

definition finish :: "('w, 'e, 'h, unit) script" where
  "finish s = (Inr (), s)"

text \<open>\<^verbatim>\<open>const x = new C()\<close>: a fresh object holding the properties the constructor sets.\<close>

definition new :: "'h obj \<Rightarrow> (ref \<Rightarrow> ('w, 'e, 'h, 'a) script) \<Rightarrow> ('w, 'e, 'h, 'a) script" where
  "new props k s =
     k (nextRef s) (s\<lparr>heap := (heap s)(nextRef s := props), nextRef := Suc (nextRef s)\<rparr>)"

text \<open>\<^verbatim>\<open>x.f = v\<close>\<close>

definition assign ::
  "ref \<Rightarrow> field \<Rightarrow> 'h jsval \<Rightarrow> ('w, 'e, 'h, 'a) script \<Rightarrow> ('w, 'e, 'h, 'a) script" where
  "assign r f v k s = k (s\<lparr>heap := (heap s)(r := (heap s r)(f \<mapsto> v))\<rparr>)"

text \<open>
  \<^verbatim>\<open>x.f.g = v\<close>: the property \<open>f\<close> of \<open>x\<close> is read first.  The scripts do this only right after
  \<^verbatim>\<open>x.f = new C()\<close>, so the value read is a reference; reading anything else there would be a
  \<^verbatim>\<open>TypeError\<close> of the runtime, the first argument.
\<close>

definition assignVia ::
  "'e \<Rightarrow> ref \<Rightarrow> field \<Rightarrow> field \<Rightarrow> 'h jsval \<Rightarrow> ('w, 'e, 'h, 'a) script \<Rightarrow> ('w, 'e, 'h, 'a) script" where
  "assignVia tyErr r f g v k s =
     (case heap s r f of
        Some (Ref r') \<Rightarrow> assign r' g v k s
      | _ \<Rightarrow> (Inl tyErr, s))"

text \<open>\<^verbatim>\<open>console.log(msg)\<close>\<close>

definition consoleLog :: "string \<Rightarrow> ('w, 'e, 'h, 'a) script \<Rightarrow> ('w, 'e, 'h, 'a) script" where
  "consoleLog msg k s = k (s\<lparr>trace := trace s @ [ConsoleLog msg]\<rparr>)"

text \<open>
  Making a call records it.  Its completion lets the library act on its world, records the
  outcome, and either resumes the script with the answer or throws what the library threw.
\<close>

definition issue :: "('w, 'e, 'h, 'a) pending \<Rightarrow> ('w, 'e, 'h) state \<Rightarrow> ('w, 'e, 'h) state" where
  "issue p s = s\<lparr>trace := trace s @ [Issued (request p)]\<rparr>"

definition settle ::
  "('w, 'e, 'h, 'a) pending \<Rightarrow> ('a \<Rightarrow> ('w, 'e, 'h, 'b) script) \<Rightarrow> ('w, 'e, 'h, 'b) script" where
  "settle p k s =
     (case perform p (world s) of
        (Inl e, w') \<Rightarrow>
          (Inl e, s\<lparr>world := w', trace := trace s @ [Settled (request p) (Rejected e)]\<rparr>)
      | (Inr a, w') \<Rightarrow>
          k a (s\<lparr>world := w',
                 trace := trace s @ [Settled (request p) (Fulfilled (handlesOf p a))]\<rparr>))"

text \<open>
  \<^verbatim>\<open>const x = await f(args)\<close>: the call is made, and the function body is suspended until the
  promise settles; a rejection is rethrown at the \<^verbatim>\<open>await\<close>.  The call is built from the heap
  as it is at that moment.
\<close>

definition await ::
  "('h heap \<Rightarrow> ('w, 'e, 'h, 'a) pending) \<Rightarrow> ('a \<Rightarrow> ('w, 'e, 'h, 'b) script)
     \<Rightarrow> ('w, 'e, 'h, 'b) script" where
  "await mk k s = settle (mk (heap s)) k (issue (mk (heap s)) s)"

text \<open>
  \<^verbatim>\<open>const x = f(args)\<close>, a synchronous call: it has returned or thrown before the next
  statement runs.
\<close>

definition call ::
  "('h heap \<Rightarrow> ('w, 'e, 'h, 'a) pending) \<Rightarrow> ('a \<Rightarrow> ('w, 'e, 'h, 'b) script)
     \<Rightarrow> ('w, 'e, 'h, 'b) script" where
  "call mk k s =
     (let p = mk (heap s) in
      case perform p (world s) of
        (Inl e, w') \<Rightarrow>
          (Inl e, s\<lparr>world := w',
                    trace := trace s @ [Issued (request p), Settled (request p) (Rejected e)]\<rparr>)
      | (Inr a, w') \<Rightarrow>
          k a (s\<lparr>world := w',
                 trace := trace s @ [Issued (request p),
                                     Settled (request p) (Fulfilled (handlesOf p a))]\<rparr>))"

section \<open>The libraries\<close>

text \<open>
  The packages \<^verbatim>\<open>@bitbybit-dev/playcanvas\<close> and \<^verbatim>\<open>@bitbybit-dev/babylonjs\<close> are not part of the
  two source files.  They are parameters: any behaviour of the right type.  Every function
  may change the world and may fail.

  \<open>construct c\<close> is the set of properties a \<^verbatim>\<open>new Inputs. ... .c()\<close> starts with (the
  constructors of these option classes are taken to do nothing else); \<open>typeError\<close> is the
  runtime's \<^verbatim>\<open>TypeError\<close>.  \<^verbatim>\<open>drawAnyAsync\<close> returns a mesh that the scripts discard.  The
  result types are those the TypeScript declarations give the scripts: a shape pointer, or
  an object with the two properties the script takes from it.

  A script hands each object it allocated to exactly one call and does not read it
  afterwards, so a library is given the properties of the object at the call, and what it
  might write into the object is of no consequence to the script.
\<close>

record ('w, 'e, 'h) bitbybit =
  construct :: "cls \<Rightarrow> 'h obj"
  typeError :: 'e
  BitByBitBase :: "'w \<Rightarrow> ('e + 'h) \<times> 'w"
  occt_shapes_wire_createPolylineWire :: "'h \<Rightarrow> Point3 list \<Rightarrow> 'w \<Rightarrow> ('e + 'h) \<times> 'w"
  occt_shapes_face_createFaceFromWire :: "'h \<Rightarrow> 'h \<Rightarrow> bool \<Rightarrow> 'w \<Rightarrow> ('e + 'h) \<times> 'w"
  occt_operations_revolve :: "'h \<Rightarrow> ref \<Rightarrow> 'h obj \<Rightarrow> 'w \<Rightarrow> ('e + 'h) \<times> 'w"
  draw_drawAnyAsync :: "'h \<Rightarrow> 'h entity \<Rightarrow> ref \<Rightarrow> 'h obj \<Rightarrow> 'w \<Rightarrow> ('e + unit) \<times> 'w"

text \<open>
  \<^verbatim>\<open>initPlayCanvas(sceneOptions)\<close> returns an object from which the script takes \<^verbatim>\<open>scene\<close> and
  \<^verbatim>\<open>app\<close>; \<^verbatim>\<open>initBitByBit(app, scene, bitbybit, options)\<close>.
\<close>

record ('w, 'e, 'h) playcanvas = "('w, 'e, 'h) bitbybit" +
  initPlayCanvas :: "ref \<Rightarrow> 'h heap \<Rightarrow> 'w \<Rightarrow> ('e + 'h \<times> 'h) \<times> 'w"
  initBitByBit_playcanvas :: "'h \<Rightarrow> 'h \<Rightarrow> 'h \<Rightarrow> 'h obj \<Rightarrow> 'w \<Rightarrow> ('e + unit) \<times> 'w"

text \<open>
  \<^verbatim>\<open>initBabylonJS(babylonOptions)\<close> returns an object from which the script takes \<^verbatim>\<open>scene\<close> and
  \<^verbatim>\<open>engine\<close>; \<^verbatim>\<open>initBitByBit(scene, bitbybit, options)\<close>; \<^verbatim>\<open>engine.runRenderLoop(callback)\<close>;
  and what the callback uses: \<^verbatim>\<open>scene.activeCamera\<close> (read as a condition) and
  \<^verbatim>\<open>scene.render()\<close>.
\<close>

record ('w, 'e, 'h) babylonjs = "('w, 'e, 'h) bitbybit" +
  initBabylonJS :: "ref \<Rightarrow> 'h heap \<Rightarrow> 'w \<Rightarrow> ('e + 'h \<times> 'h) \<times> 'w"
  initBitByBit_babylonjs :: "'h \<Rightarrow> 'h \<Rightarrow> 'h obj \<Rightarrow> 'w \<Rightarrow> ('e + unit) \<times> 'w"
  engine_runRenderLoop :: "'h \<Rightarrow> ('w \<Rightarrow> ('e + unit) \<times> 'w) \<Rightarrow> 'w \<Rightarrow> ('e + unit) \<times> 'w"
  scene_activeCamera :: "'h \<Rightarrow> 'w \<Rightarrow> bool"
  scene_render :: "'h \<Rightarrow> 'w \<Rightarrow> ('e + unit) \<times> 'w"

text \<open>The calls, as the scripts write them.  The last argument is the heap at the call.\<close>

definition newBitByBitBase ::
  "('w, 'e, 'h, 'z) bitbybit_scheme \<Rightarrow> 'h heap \<Rightarrow> ('w, 'e, 'h, 'h) pending" where
  "newBitByBitBase pkg hp = Pending NewBitByBitBase (BitByBitBase pkg) (\<lambda>b. [b])"

definition createPolylineWire ::
  "('w, 'e, 'h, 'z) bitbybit_scheme \<Rightarrow> 'h \<Rightarrow> Point3 list \<Rightarrow> 'h heap \<Rightarrow> ('w, 'e, 'h, 'h) pending" where
  "createPolylineWire pkg bb points hp =
     Pending (CreatePolylineWire bb points)
             (occt_shapes_wire_createPolylineWire pkg bb points) (\<lambda>x. [x])"

definition createFaceFromWire ::
  "('w, 'e, 'h, 'z) bitbybit_scheme \<Rightarrow> 'h \<Rightarrow> 'h \<Rightarrow> bool \<Rightarrow> 'h heap \<Rightarrow> ('w, 'e, 'h, 'h) pending" where
  "createFaceFromWire pkg bb wire planar hp =
     Pending (CreateFaceFromWire bb wire planar)
             (occt_shapes_face_createFaceFromWire pkg bb wire planar) (\<lambda>x. [x])"

definition revolve ::
  "('w, 'e, 'h, 'z) bitbybit_scheme \<Rightarrow> 'h \<Rightarrow> ref \<Rightarrow> 'h heap \<Rightarrow> ('w, 'e, 'h, 'h) pending" where
  "revolve pkg bb r hp =
     Pending (Revolve bb r (hp r)) (occt_operations_revolve pkg bb r (hp r)) (\<lambda>x. [x])"

definition drawAnyAsync ::
  "('w, 'e, 'h, 'z) bitbybit_scheme \<Rightarrow> 'h \<Rightarrow> 'h entity \<Rightarrow> ref \<Rightarrow> 'h heap
     \<Rightarrow> ('w, 'e, 'h, unit) pending" where
  "drawAnyAsync pkg bb ent r hp =
     Pending (DrawAnyAsync bb ent r (hp r)) (draw_drawAnyAsync pkg bb ent r (hp r)) (\<lambda>u. [])"

definition initPlayCanvas_call ::
  "('w, 'e, 'h) playcanvas \<Rightarrow> ref \<Rightarrow> 'h heap \<Rightarrow> ('w, 'e, 'h, 'h \<times> 'h) pending" where
  "initPlayCanvas_call pkg r hp =
     Pending (InitPlayCanvas r) (initPlayCanvas pkg r hp) (\<lambda>(scene, app). [scene, app])"

definition initBitByBit_playcanvas_call ::
  "('w, 'e, 'h) playcanvas \<Rightarrow> 'h \<Rightarrow> 'h \<Rightarrow> 'h \<Rightarrow> 'h obj \<Rightarrow> 'h heap
     \<Rightarrow> ('w, 'e, 'h, unit) pending" where
  "initBitByBit_playcanvas_call pkg app scene bb opts hp =
     Pending (InitBitByBit [app, scene, bb] opts)
             (initBitByBit_playcanvas pkg app scene bb opts) (\<lambda>u. [])"

definition initBabylonJS_call ::
  "('w, 'e, 'h) babylonjs \<Rightarrow> ref \<Rightarrow> 'h heap \<Rightarrow> ('w, 'e, 'h, 'h \<times> 'h) pending" where
  "initBabylonJS_call pkg r hp =
     Pending (InitBabylonJS r) (initBabylonJS pkg r hp) (\<lambda>(scene, engine). [scene, engine])"

definition initBitByBit_babylonjs_call ::
  "('w, 'e, 'h) babylonjs \<Rightarrow> 'h \<Rightarrow> 'h \<Rightarrow> 'h obj \<Rightarrow> 'h heap \<Rightarrow> ('w, 'e, 'h, unit) pending" where
  "initBitByBit_babylonjs_call pkg scene bb opts hp =
     Pending (InitBitByBit [scene, bb] opts)
             (initBitByBit_babylonjs pkg scene bb opts) (\<lambda>u. [])"

definition runRenderLoop ::
  "('w, 'e, 'h) babylonjs \<Rightarrow> 'h \<Rightarrow> ('w \<Rightarrow> ('e + unit) \<times> 'w) \<Rightarrow> 'h heap
     \<Rightarrow> ('w, 'e, 'h, unit) pending" where
  "runRenderLoop pkg engine callback hp =
     Pending (RunRenderLoop engine callback) (engine_runRenderLoop pkg engine callback) (\<lambda>u. [])"

text \<open>
  The object literal \<^verbatim>\<open>options\<close> of both scripts:
  \<^verbatim>\<open>{ enableOCCT: true, enableJSCAD: false, enableManifold: false }\<close>.
\<close>

definition options :: "'h obj" where
  "options = [enableOCCT \<mapsto> Bool True, enableJSCAD \<mapsto> Bool False, enableManifold \<mapsto> Bool False]"

section \<open>The scripts\<close>

text \<open>
  \<^verbatim>\<open>async function start()\<close> of \<^verbatim>\<open>2dline.ts\<close> (PlayCanvas), statement by statement.  The
  declarations of the profile constants and of \<^verbatim>\<open>profilePoints\<close> (lines 65 to 75) are the
  definitions above.
\<close>

definition start_playcanvas :: "('w, 'e, 'h) playcanvas \<Rightarrow> ('w, 'e, 'h, unit) script" where
  "start_playcanvas pkg =
    new (construct pkg InitPlayCanvasDto) (\<lambda>sceneOptions.
    assign sceneOptions canvasId (Str ''playcanvas-canvas'') (
    assign sceneOptions sceneSize (Num 200) (
    assign sceneOptions enableShadows (Bool False) (
    assign sceneOptions enableGround (Bool True) (
    assign sceneOptions groundColor (Str ''#333333'') (
    assign sceneOptions groundCenter (Vec3 (0, - 75, 0)) (
    new (construct pkg OrbitCameraDto) (\<lambda>camera.
    assign sceneOptions orbitCameraOptions (Ref camera) (
    assignVia (typeError pkg) sceneOptions orbitCameraOptions yaw (Num 45) (
    assignVia (typeError pkg) sceneOptions orbitCameraOptions pitch (Num 20) (
    assignVia (typeError pkg) sceneOptions orbitCameraOptions distance (Num 40) (
    assignVia (typeError pkg) sceneOptions orbitCameraOptions inertiaFactor (Num 0.2) (
    call (initPlayCanvas_call pkg sceneOptions) (\<lambda>(scene, app).
    call (newBitByBitBase pkg) (\<lambda>bitbybit.
    await (initBitByBit_playcanvas_call pkg app scene bitbybit options) (\<lambda>_.
    await (createPolylineWire pkg bitbybit profilePoints_playcanvas) (\<lambda>profileWire.
    new (construct pkg DrawOcctShapeOptions) (\<lambda>wireDrawOptions.
    assign wireDrawOptions edgeColour (Str ''#ff0000'') (
    assign wireDrawOptions edgeWidth (Num 8) (
    assign wireDrawOptions drawEdges (Bool True) (
    assign wireDrawOptions drawFaces (Bool False) (
    await (drawAnyAsync pkg bitbybit (OcctShape profileWire) wireDrawOptions) (\<lambda>_.
    consoleLog ''Profile wire drawn.'' (
    await (createFaceFromWire pkg bitbybit profileWire True) (\<lambda>profileFace.
    new (construct pkg RevolveDto) (\<lambda>revolveOptions.
    assign revolveOptions shape (Host profileFace) (
    assign revolveOptions direction (Vec3 (0, 1, 0)) (
    assign revolveOptions angle (Num 360) (
    await (revolve pkg bitbybit revolveOptions) (\<lambda>revolvedSolid.
    new (construct pkg DrawOcctShapeOptions) (\<lambda>solidDrawOptions.
    assign solidDrawOptions faceColour (Str ''#4488ff'') (
    assign solidDrawOptions edgeColour (Str ''#444444'') (
    assign solidDrawOptions edgeWidth (Num 0.5) (
    assign solidDrawOptions drawEdges (Bool True) (
    assign solidDrawOptions drawFaces (Bool False) (
    assign solidDrawOptions faceOpacity (Num 0.3) (
    assign solidDrawOptions drawTwoSided (Bool True) (
    assign solidDrawOptions backFaceOpacity (Num 0.3) (
    assign solidDrawOptions backFaceColour (Str ''#4488ff'') (
    await (drawAnyAsync pkg bitbybit (OcctShape revolvedSolid) solidDrawOptions) (\<lambda>_.
    consoleLog ''Revolved solid created and drawn.''
    finish)))))))))))))))))))))))))))))))))))))))))"

text \<open>
  The callback of \<^verbatim>\<open>part_000\<close>, lines 143 to 147:
  \<^verbatim>\<open>() => { if (scene.activeCamera) { scene.render(); } }\<close>.
  The script hands it to the engine and never runs it.
\<close>

definition renderLoopCallback :: "('w, 'e, 'h) babylonjs \<Rightarrow> 'h \<Rightarrow> 'w \<Rightarrow> ('e + unit) \<times> 'w" where
  "renderLoopCallback pkg scene w =
     (if scene_activeCamera pkg scene w then scene_render pkg scene w else (Inr (), w))"

text \<open>\<^verbatim>\<open>async function start()\<close> of \<^verbatim>\<open>part_000\<close> (BabylonJS), statement by statement.\<close>

definition start_babylonjs :: "('w, 'e, 'h) babylonjs \<Rightarrow> ('w, 'e, 'h, unit) script" where
  "start_babylonjs pkg =
    new (construct pkg InitBabylonJSDto) (\<lambda>babylonOptions.
    assign babylonOptions canvasId (Str ''babylon-canvas'') (
    assign babylonOptions sceneSize (Num 200) (
    assign babylonOptions enableShadows (Bool False) (
    assign babylonOptions enableGround (Bool True) (
    assign babylonOptions groundColor (Str ''#333333'') (
    assign babylonOptions groundCenter (Vec3 (0, - 75, 0)) (
    new (construct pkg ArcRotateCameraDto) (\<lambda>camera.
    assign babylonOptions arcRotateCameraOptions (Ref camera) (
    assignVia (typeError pkg) babylonOptions arcRotateCameraOptions alpha (Num 45) (
    assignVia (typeError pkg) babylonOptions arcRotateCameraOptions beta (Num 70) (
    assignVia (typeError pkg) babylonOptions arcRotateCameraOptions radius (Num 40) (
    call (initBabylonJS_call pkg babylonOptions) (\<lambda>(scene, engine).
    call (newBitByBitBase pkg) (\<lambda>bitbybit.
    await (initBitByBit_babylonjs_call pkg scene bitbybit options) (\<lambda>_.
    await (createPolylineWire pkg bitbybit profilePoints_babylonjs) (\<lambda>profileWire.
    new (construct pkg DrawOcctShapeOptions) (\<lambda>wireDrawOptions.
    assign wireDrawOptions edgeColour (Str ''#ff0000'') (
    assign wireDrawOptions edgeWidth (Num 8) (
    assign wireDrawOptions drawEdges (Bool True) (
    assign wireDrawOptions drawFaces (Bool False) (
    await (drawAnyAsync pkg bitbybit (OcctShape profileWire) wireDrawOptions) (\<lambda>_.
    consoleLog ''Profile wire drawn.'' (
    new (construct pkg DrawBasicGeometryOptions) (\<lambda>axisOptions.
    assign axisOptions colours (Str ''#ffff00'') (
    assign axisOptions size' (Num 4) (
    await (drawAnyAsync pkg bitbybit (Polyline3 axisPoints) axisOptions) (\<lambda>_.
    consoleLog ''Center axis drawn.'' (
    await (createFaceFromWire pkg bitbybit profileWire True) (\<lambda>profileFace.
    new (construct pkg RevolveDto) (\<lambda>revolveOptions.
    assign revolveOptions shape (Host profileFace) (
    assign revolveOptions direction (Vec3 (0, 1, 0)) (
    assign revolveOptions angle (Num 360) (
    await (revolve pkg bitbybit revolveOptions) (\<lambda>revolvedSolid.
    new (construct pkg DrawOcctShapeOptions) (\<lambda>solidDrawOptions.
    assign solidDrawOptions faceColour (Str ''#4488ff'') (
    assign solidDrawOptions edgeColour (Str ''#444444'') (
    assign solidDrawOptions edgeWidth (Num 0.5) (
    assign solidDrawOptions drawEdges (Bool True) (
    assign solidDrawOptions drawFaces (Bool True) (
    assign solidDrawOptions faceOpacity (Num 0.3) (
    await (drawAnyAsync pkg bitbybit (OcctShape revolvedSolid) solidDrawOptions) (\<lambda>_.
    consoleLog ''Revolved solid created and drawn.'' (
    call (runRenderLoop pkg engine (renderLoopCallback pkg scene)) (\<lambda>_.
    finish))))))))))))))))))))))))))))))))))))))))))))"

text \<open>
  Line 4 of both files is the bare statement \<^verbatim>\<open>start();\<close>: the module runs the function once,
  from a state in which the script has allocated nothing and nothing has happened, and
  neither awaits nor catches its promise.  So the outcome of the module is the outcome of
  \<open>start\<close>: \<open>Inl e\<close> is a promise rejected with \<open>e\<close>, which nothing handles.
\<close>

definition initial :: "'w \<Rightarrow> ('w, 'e, 'h) state" where
  "initial w = \<lparr>world = w, heap = (\<lambda>_. Map.empty), nextRef = 0, trace = []\<rparr>"

definition result_playcanvas :: "('w, 'e, 'h) playcanvas \<Rightarrow> 'w \<Rightarrow> 'e + unit" where
  "result_playcanvas pkg w = fst (start_playcanvas pkg (initial w))"

definition trace_playcanvas :: "('w, 'e, 'h) playcanvas \<Rightarrow> 'w \<Rightarrow> ('w, 'e, 'h) event list" where
  "trace_playcanvas pkg w = trace (snd (start_playcanvas pkg (initial w)))"

definition result_babylonjs :: "('w, 'e, 'h) babylonjs \<Rightarrow> 'w \<Rightarrow> 'e + unit" where
  "result_babylonjs pkg w = fst (start_babylonjs pkg (initial w))"

definition trace_babylonjs :: "('w, 'e, 'h) babylonjs \<Rightarrow> 'w \<Rightarrow> ('w, 'e, 'h) event list" where
  "trace_babylonjs pkg w = trace (snd (start_babylonjs pkg (initial w)))"

section \<open>Reading a history\<close>

text \<open>The requests of a history, in the order in which they were issued.\<close>

fun issuedRequests :: "('w, 'e, 'h) event list \<Rightarrow> ('w, 'e, 'h) request list" where
  "issuedRequests [] = []"
| "issuedRequests (Issued r # evs) = r # issuedRequests evs"
| "issuedRequests (Settled r oc # evs) = issuedRequests evs"
| "issuedRequests (ConsoleLog m # evs) = issuedRequests evs"

text \<open>
  No two calls are ever in flight: an issued call is settled before anything else happens.
  (A history that ends with a call still in flight is not sequential either.)
\<close>

fun sequential :: "('w, 'e, 'h) event list \<Rightarrow> bool" where
  "sequential [] = True"
| "sequential (ConsoleLog m # evs) = sequential evs"
| "sequential (Issued r # Settled r' oc # evs) = (r = r' \<and> sequential evs)"
| "sequential (Issued r # evs) = False"
| "sequential (Settled r oc # evs) = False"

text \<open>The point sequences passed to wire construction.\<close>

fun wirePointsOf :: "('w, 'e, 'h) request \<Rightarrow> Point3 list list" where
  "wirePointsOf (CreatePolylineWire bb pts) = [pts]"
| "wirePointsOf _ = []"

definition wirePoints :: "('w, 'e, 'h) event list \<Rightarrow> Point3 list list" where
  "wirePoints tr = concat (map wirePointsOf (issuedRequests tr))"

text \<open>The wire handles passed to face construction.\<close>

fun faceInputOf :: "('w, 'e, 'h) request \<Rightarrow> 'h list" where
  "faceInputOf (CreateFaceFromWire bb x planar) = [x]"
| "faceInputOf _ = []"

definition faceInputs :: "('w, 'e, 'h) event list \<Rightarrow> 'h list" where
  "faceInputs tr = concat (map faceInputOf (issuedRequests tr))"

text \<open>The option objects passed to \<^verbatim>\<open>revolve\<close>: reference and properties.\<close>

fun revolveOf :: "('w, 'e, 'h) request \<Rightarrow> (ref \<times> 'h obj) list" where
  "revolveOf (Revolve bb r ob) = [(r, ob)]"
| "revolveOf _ = []"

definition revolveRequests :: "('w, 'e, 'h) event list \<Rightarrow> (ref \<times> 'h obj) list" where
  "revolveRequests tr = concat (map revolveOf (issuedRequests tr))"

text \<open>The drawing requests: the entity, and the style record by reference and by properties.\<close>

fun drawOf :: "('w, 'e, 'h) request \<Rightarrow> ('h entity \<times> ref \<times> 'h obj) list" where
  "drawOf (DrawAnyAsync bb ent r ob) = [(ent, r, ob)]"
| "drawOf _ = []"

definition drawRequests :: "('w, 'e, 'h) event list \<Rightarrow> ('h entity \<times> ref \<times> 'h obj) list" where
  "drawRequests tr = concat (map drawOf (issuedRequests tr))"

text \<open>The starts of the render loop.\<close>

fun renderLoopOf :: "('w, 'e, 'h) request \<Rightarrow> 'h list" where
  "renderLoopOf (RunRenderLoop engine callback) = [engine]"
| "renderLoopOf _ = []"

definition renderLoopStarts :: "('w, 'e, 'h) event list \<Rightarrow> 'h list" where
  "renderLoopStarts tr = concat (map renderLoopOf (issuedRequests tr))"

text \<open>The three geometry-kernel steps.\<close>

datatype geometryStep = WireConstruction | FaceConstruction | Revolution

fun geometryStepOf :: "('w, 'e, 'h) request \<Rightarrow> geometryStep list" where
  "geometryStepOf (CreatePolylineWire bb pts) = [WireConstruction]"
| "geometryStepOf (CreateFaceFromWire bb x planar) = [FaceConstruction]"
| "geometryStepOf (Revolve bb r ob) = [Revolution]"
| "geometryStepOf _ = []"

definition geometrySteps :: "('w, 'e, 'h) event list \<Rightarrow> geometryStep list" where
  "geometrySteps tr = concat (map geometryStepOf (issuedRequests tr))"

text \<open>The handles a geometry step returned.\<close>

fun returnedOf :: "geometryStep \<Rightarrow> ('w, 'e, 'h) event \<Rightarrow> 'h list" where
  "returnedOf g (Settled r (Fulfilled hs)) = (if geometryStepOf r = [g] then hs else [])"
| "returnedOf g _ = []"

definition returned :: "geometryStep \<Rightarrow> ('w, 'e, 'h) event list \<Rightarrow> 'h list" where
  "returned g tr = concat (map (returnedOf g) tr)"

text \<open>The part of a history from the completion of the given geometry step on.\<close>

fun completes :: "geometryStep \<Rightarrow> ('w, 'e, 'h) event \<Rightarrow> bool" where
  "completes g (Settled r oc) = (geometryStepOf r = [g])"
| "completes g _ = False"

definition fromCompletion :: "geometryStep \<Rightarrow> ('w, 'e, 'h) event list \<Rightarrow> ('w, 'e, 'h) event list" where
  "fromCompletion g tr = dropWhile (\<lambda>ev. \<not> completes g ev) tr"

definition uptoCompletion :: "geometryStep \<Rightarrow> ('w, 'e, 'h) event list \<Rightarrow> ('w, 'e, 'h) event list" where
  "uptoCompletion g tr = takeWhile (\<lambda>ev. \<not> completes g ev) tr"

text \<open>The part of a history from the start of the render loop on.\<close>

fun startsRenderLoop :: "('w, 'e, 'h) event \<Rightarrow> bool" where
  "startsRenderLoop (Issued r) = (renderLoopOf r \<noteq> [])"
| "startsRenderLoop _ = False"

definition fromRenderLoop :: "('w, 'e, 'h) event list \<Rightarrow> ('w, 'e, 'h) event list" where
  "fromRenderLoop tr = dropWhile (\<lambda>ev. \<not> startsRenderLoop ev) tr"

text \<open>The errors the libraries answered with, and whether a history ends with one.\<close>

fun rejectionOf :: "('w, 'e, 'h) event \<Rightarrow> 'e list" where
  "rejectionOf (Settled r (Rejected e)) = [e]"
| "rejectionOf _ = []"

definition rejections :: "('w, 'e, 'h) event list \<Rightarrow> 'e list" where
  "rejections tr = concat (map rejectionOf tr)"

definition endsWithRejection :: "'e \<Rightarrow> ('w, 'e, 'h) event list \<Rightarrow> bool" where
  "endsWithRejection e tr = (tr \<noteq> [] \<and> rejectionOf (last tr) = [e])"

text \<open>The lines written to the console.\<close>

fun consoleLineOf :: "('w, 'e, 'h) event \<Rightarrow> string list" where
  "consoleLineOf (ConsoleLog m) = [m]"
| "consoleLineOf _ = []"

definition consoleLines :: "('w, 'e, 'h) event list \<Rightarrow> string list" where
  "consoleLines tr = concat (map consoleLineOf tr)"

text \<open>Which library function a request calls.\<close>

datatype callee =
    Fn_initPlayCanvas | Fn_initBabylonJS | Fn_BitByBitBase | Fn_initBitByBit
  | Fn_createPolylineWire | Fn_drawAnyAsync | Fn_createFaceFromWire | Fn_revolve
  | Fn_runRenderLoop

fun calleeOf :: "('w, 'e, 'h) request \<Rightarrow> callee" where
  "calleeOf (InitPlayCanvas r) = Fn_initPlayCanvas"
| "calleeOf (InitBabylonJS r) = Fn_initBabylonJS"
| "calleeOf NewBitByBitBase = Fn_BitByBitBase"
| "calleeOf (InitBitByBit hs ob) = Fn_initBitByBit"
| "calleeOf (CreatePolylineWire bb pts) = Fn_createPolylineWire"
| "calleeOf (DrawAnyAsync bb ent r ob) = Fn_drawAnyAsync"
| "calleeOf (CreateFaceFromWire bb x planar) = Fn_createFaceFromWire"
| "calleeOf (Revolve bb r ob) = Fn_revolve"
| "calleeOf (RunRenderLoop engine callback) = Fn_runRenderLoop"

text \<open>The calls of each script in the order of its text.\<close>

definition pipeline_playcanvas :: "callee list" where
  "pipeline_playcanvas =
     [ Fn_initPlayCanvas, Fn_BitByBitBase, Fn_initBitByBit, Fn_createPolylineWire,
       Fn_drawAnyAsync, Fn_createFaceFromWire, Fn_revolve, Fn_drawAnyAsync ]"

definition pipeline_babylonjs :: "callee list" where
  "pipeline_babylonjs =
     [ Fn_initBabylonJS, Fn_BitByBitBase, Fn_initBitByBit, Fn_createPolylineWire,
       Fn_drawAnyAsync, Fn_drawAnyAsync, Fn_createFaceFromWire, Fn_revolve,
       Fn_drawAnyAsync, Fn_runRenderLoop ]"

text \<open>The extent of a profile along X.\<close>

definition minX :: "Point3 list \<Rightarrow> real" where
  "minX ps = Min (set (map xCoord ps))"

definition maxX :: "Point3 list \<Rightarrow> real" where
  "maxX ps = Max (set (map xCoord ps))"

section \<open>The shape of a run\<close>

text \<open>
  A completed step of a run: the request, the handles the call returned, and the lines the
  script wrote to the console before its next call.
\<close>

type_synonym ('w, 'e, 'h) step = "('w, 'e, 'h) request \<times> 'h list \<times> string list"

fun completed :: "('w, 'e, 'h) step \<Rightarrow> ('w, 'e, 'h) event list" where
  "completed (req, hs, logs) = Issued req # Settled req (Fulfilled hs) # map ConsoleLog logs"

fun aborted :: "('w, 'e, 'h) step \<Rightarrow> 'e \<Rightarrow> ('w, 'e, 'h) event list" where
  "aborted (req, hs, logs) e = [Issued req, Settled req (Rejected e)]"

text \<open>The history of a run in which every step completes.\<close>

definition okRun :: "('w, 'e, 'h) step list \<Rightarrow> ('w, 'e, 'h) event list" where
  "okRun steps = concat (map completed steps)"

text \<open>The history of a run whose step number \<open>k\<close> (from 0) fails with \<open>e\<close>.\<close>

fun failedRun :: "('w, 'e, 'h) step list \<Rightarrow> nat \<Rightarrow> 'e \<Rightarrow> ('w, 'e, 'h) event list" where
  "failedRun [] k e = []"
| "failedRun (c # cs) 0 e = aborted c e"
| "failedRun (c # cs) (Suc k) e = completed c @ failedRun cs k e"

text \<open>The option objects as they are when the scripts pass them on.\<close>

definition wireDrawOptions_of :: "('w, 'e, 'h, 'z) bitbybit_scheme \<Rightarrow> 'h obj" where
  "wireDrawOptions_of pkg =
     (construct pkg DrawOcctShapeOptions)
       (edgeColour \<mapsto> Str ''#ff0000'', edgeWidth \<mapsto> Num 8,
        drawEdges \<mapsto> Bool True, drawFaces \<mapsto> Bool False)"

definition axisOptions_of :: "('w, 'e, 'h, 'z) bitbybit_scheme \<Rightarrow> 'h obj" where
  "axisOptions_of pkg =
     (construct pkg DrawBasicGeometryOptions) (colours \<mapsto> Str ''#ffff00'', size' \<mapsto> Num 4)"

definition revolveOptions_of :: "('w, 'e, 'h, 'z) bitbybit_scheme \<Rightarrow> 'h \<Rightarrow> 'h obj" where
  "revolveOptions_of pkg face =
     (construct pkg RevolveDto)
       (shape \<mapsto> Host face, direction \<mapsto> Vec3 (0, 1, 0), angle \<mapsto> Num 360)"

definition solidDrawOptions_playcanvas :: "('w, 'e, 'h, 'z) bitbybit_scheme \<Rightarrow> 'h obj" where
  "solidDrawOptions_playcanvas pkg =
     (construct pkg DrawOcctShapeOptions)
       (faceColour \<mapsto> Str ''#4488ff'', edgeColour \<mapsto> Str ''#444444'', edgeWidth \<mapsto> Num 0.5,
        drawEdges \<mapsto> Bool True, drawFaces \<mapsto> Bool False, faceOpacity \<mapsto> Num 0.3,
        drawTwoSided \<mapsto> Bool True, backFaceOpacity \<mapsto> Num 0.3,
        backFaceColour \<mapsto> Str ''#4488ff'')"

definition solidDrawOptions_babylonjs :: "('w, 'e, 'h, 'z) bitbybit_scheme \<Rightarrow> 'h obj" where
  "solidDrawOptions_babylonjs pkg =
     (construct pkg DrawOcctShapeOptions)
       (faceColour \<mapsto> Str ''#4488ff'', edgeColour \<mapsto> Str ''#444444'', edgeWidth \<mapsto> Num 0.5,
        drawEdges \<mapsto> Bool True, drawFaces \<mapsto> Bool True, faceOpacity \<mapsto> Num 0.3)"

text \<open>
  The steps of the PlayCanvas script, given the handles the libraries return.  The script
  allocates \<^verbatim>\<open>sceneOptions\<close> at reference 0, the camera options at 1, \<^verbatim>\<open>wireDrawOptions\<close> at 2,
  \<^verbatim>\<open>revolveOptions\<close> at 3 and \<^verbatim>\<open>solidDrawOptions\<close> at 4.
\<close>

definition steps_playcanvas ::
  "('w, 'e, 'h) playcanvas \<Rightarrow> 'h \<Rightarrow> 'h \<Rightarrow> 'h \<Rightarrow> 'h \<Rightarrow> 'h \<Rightarrow> 'h \<Rightarrow> ('w, 'e, 'h) step list" where
  "steps_playcanvas pkg scene app bb wire face solid =
    [ (InitPlayCanvas 0, [scene, app], []),
      (NewBitByBitBase, [bb], []),
      (InitBitByBit [app, scene, bb] options, [], []),
      (CreatePolylineWire bb profilePoints_playcanvas, [wire], []),
      (DrawAnyAsync bb (OcctShape wire) 2 (wireDrawOptions_of pkg), [],
         [''Profile wire drawn.'']),
      (CreateFaceFromWire bb wire True, [face], []),
      (Revolve bb 3 (revolveOptions_of pkg face), [solid], []),
      (DrawAnyAsync bb (OcctShape solid) 4 (solidDrawOptions_playcanvas pkg), [],
         [''Revolved solid created and drawn.'']) ]"

text \<open>
  The steps of the BabylonJS script.  It allocates \<^verbatim>\<open>babylonOptions\<close> at reference 0, the
  camera options at 1, \<^verbatim>\<open>wireDrawOptions\<close> at 2, \<^verbatim>\<open>axisOptions\<close> at 3, \<^verbatim>\<open>revolveOptions\<close> at 4
  and \<^verbatim>\<open>solidDrawOptions\<close> at 5.
\<close>

definition steps_babylonjs ::
  "('w, 'e, 'h) babylonjs \<Rightarrow> 'h \<Rightarrow> 'h \<Rightarrow> 'h \<Rightarrow> 'h \<Rightarrow> 'h \<Rightarrow> 'h \<Rightarrow> ('w, 'e, 'h) step list" where
  "steps_babylonjs pkg scene engine bb wire face solid =
    [ (InitBabylonJS 0, [scene, engine], []),
      (NewBitByBitBase, [bb], []),
      (InitBitByBit [scene, bb] options, [], []),
      (CreatePolylineWire bb profilePoints_babylonjs, [wire], []),
      (DrawAnyAsync bb (OcctShape wire) 2 (wireDrawOptions_of pkg), [],
         [''Profile wire drawn.'']),
      (DrawAnyAsync bb (Polyline3 axisPoints) 3 (axisOptions_of pkg), [],
         [''Center axis drawn.'']),
      (CreateFaceFromWire bb wire True, [face], []),
      (Revolve bb 4 (revolveOptions_of pkg face), [solid], []),
      (DrawAnyAsync bb (OcctShape solid) 5 (solidDrawOptions_babylonjs pkg), [],
         [''Revolved solid created and drawn.'']),
      (RunRenderLoop engine (renderLoopCallback pkg scene), [], []) ]"

section \<open>The answers of the libraries\<close>

text \<open>
  The heap at the call of \<^verbatim>\<open>initPlayCanvas\<close>: \<^verbatim>\<open>sceneOptions\<close> at reference 0 and the camera
  options at reference 1, after the assignments of lines 41 to 51 of \<^verbatim>\<open>2dline.ts\<close>.
\<close>

definition sceneOptions_heap :: "('w, 'e, 'h) playcanvas \<Rightarrow> 'h heap" where
  "sceneOptions_heap pkg =
     (\<lambda>_. Map.empty)
       (0 := (construct pkg InitPlayCanvasDto)
               (canvasId \<mapsto> Str ''playcanvas-canvas'', sceneSize \<mapsto> Num 200,
                enableShadows \<mapsto> Bool False, enableGround \<mapsto> Bool True,
                groundColor \<mapsto> Str ''#333333'', groundCenter \<mapsto> Vec3 (0, - 75, 0),
                orbitCameraOptions \<mapsto> Ref 1),
        1 := (construct pkg OrbitCameraDto)
               (yaw \<mapsto> Num 45, pitch \<mapsto> Num 20, distance \<mapsto> Num 40,
                inertiaFactor \<mapsto> Num 0.2))"

text \<open>
  The heap at the call of \<^verbatim>\<open>initBabylonJS\<close>: \<^verbatim>\<open>babylonOptions\<close> at reference 0 and the camera
  options at reference 1, after the assignments of lines 41 to 50 of \<^verbatim>\<open>part_000\<close>.
\<close>

definition babylonOptions_heap :: "('w, 'e, 'h) babylonjs \<Rightarrow> 'h heap" where
  "babylonOptions_heap pkg =
     (\<lambda>_. Map.empty)
       (0 := (construct pkg InitBabylonJSDto)
               (canvasId \<mapsto> Str ''babylon-canvas'', sceneSize \<mapsto> Num 200,
                enableShadows \<mapsto> Bool False, enableGround \<mapsto> Bool True,
                groundColor \<mapsto> Str ''#333333'', groundCenter \<mapsto> Vec3 (0, - 75, 0),
                arcRotateCameraOptions \<mapsto> Ref 1),
        1 := (construct pkg ArcRotateCameraDto)
               (alpha \<mapsto> Num 45, beta \<mapsto> Num 70, radius \<mapsto> Num 40))"

text \<open>What a library function answers to a request in a given world, as an outcome.\<close>

fun outcomeOf :: "('a \<Rightarrow> 'h list) \<Rightarrow> ('e + 'a) \<times> 'w \<Rightarrow> ('e, 'h) outcome \<times> 'w" where
  "outcomeOf hs (Inl e, w) = (Rejected e, w)"
| "outcomeOf hs (Inr a, w) = (Fulfilled (hs a), w)"

fun answer_bitbybit ::
  "('w, 'e, 'h, 'z) bitbybit_scheme \<Rightarrow> ('w, 'e, 'h) request \<Rightarrow> 'w
     \<Rightarrow> (('e, 'h) outcome \<times> 'w) option" where
  "answer_bitbybit pkg NewBitByBitBase w = Some (outcomeOf (\<lambda>b. [b]) (BitByBitBase pkg w))"
| "answer_bitbybit pkg (CreatePolylineWire bb pts) w =
     Some (outcomeOf (\<lambda>x. [x]) (occt_shapes_wire_createPolylineWire pkg bb pts w))"
| "answer_bitbybit pkg (CreateFaceFromWire bb x planar) w =
     Some (outcomeOf (\<lambda>x. [x]) (occt_shapes_face_createFaceFromWire pkg bb x planar w))"
| "answer_bitbybit pkg (Revolve bb r ob) w =
     Some (outcomeOf (\<lambda>x. [x]) (occt_operations_revolve pkg bb r ob w))"
| "answer_bitbybit pkg (DrawAnyAsync bb ent r ob) w =
     Some (outcomeOf (\<lambda>u. []) (draw_drawAnyAsync pkg bb ent r ob w))"
| "answer_bitbybit pkg _ w = None"

fun answer_playcanvas ::
  "('w, 'e, 'h) playcanvas \<Rightarrow> ('w, 'e, 'h) request \<Rightarrow> 'w \<Rightarrow> (('e, 'h) outcome \<times> 'w) option" where
  "answer_playcanvas pkg (InitPlayCanvas r) w =
     Some (outcomeOf (\<lambda>(scene, app). [scene, app]) (initPlayCanvas pkg r (sceneOptions_heap pkg) w))"
| "answer_playcanvas pkg (InitBitByBit [app, scene, bb] opts) w =
     Some (outcomeOf (\<lambda>u. []) (initBitByBit_playcanvas pkg app scene bb opts w))"
| "answer_playcanvas pkg req w = answer_bitbybit pkg req w"

fun answer_babylonjs ::
  "('w, 'e, 'h) babylonjs \<Rightarrow> ('w, 'e, 'h) request \<Rightarrow> 'w \<Rightarrow> (('e, 'h) outcome \<times> 'w) option" where
  "answer_babylonjs pkg (InitBabylonJS r) w =
     Some (outcomeOf (\<lambda>(scene, engine). [scene, engine])
             (initBabylonJS pkg r (babylonOptions_heap pkg) w))"
| "answer_babylonjs pkg (InitBitByBit [scene, bb] opts) w =
     Some (outcomeOf (\<lambda>u. []) (initBitByBit_babylonjs pkg scene bb opts w))"
| "answer_babylonjs pkg (RunRenderLoop engine callback) w =
     Some (outcomeOf (\<lambda>u. []) (engine_runRenderLoop pkg engine callback w))"
| "answer_babylonjs pkg req w = answer_bitbybit pkg req w"

text \<open>
  A history replays the answers from a world: each call in it is settled with what the
  library answers to that request in the world the previous call left, and nothing else
  happens in between.
\<close>

fun replays ::
  "(('w, 'e, 'h) request \<Rightarrow> 'w \<Rightarrow> (('e, 'h) outcome \<times> 'w) option) \<Rightarrow> 'w
     \<Rightarrow> ('w, 'e, 'h) event list \<Rightarrow> bool" where
  "replays ans w [] = True"
| "replays ans w (ConsoleLog m # evs) = replays ans w evs"
| "replays ans w (Issued r # Settled r' oc # evs) =
     (case ans r w of
        None \<Rightarrow> False
      | Some (oc', w') \<Rightarrow> r' = r \<and> oc = oc' \<and> replays ans w' evs)"
| "replays ans w (Issued r # evs) = False"
| "replays ans w (Settled r oc # evs) = False"

section \<open>Sample libraries\<close>

text \<open>
  Concrete libraries on which the scripts can be run.  The world is the number of calls made
  so far; the call made in world \<open>failAt\<close> fails, every other call succeeds, and a call that
  returns a handle returns its own number.
\<close>

definition sampleCall :: "int \<Rightarrow> (int \<Rightarrow> 'a) \<Rightarrow> int \<Rightarrow> (string + 'a) \<times> int" where
  "sampleCall failAt answer w =
     (if w = failAt then (Inl ''rejected'', w + 1) else (Inr (answer w), w + 1))"

definition sampleConstruct :: "cls \<Rightarrow> int obj" where
  "sampleConstruct c =
     (case c of
        DrawOcctShapeOptions \<Rightarrow>
          [faceColour \<mapsto> Str ''#ff0000'', edgeColour \<mapsto> Str ''#ffffff'', edgeWidth \<mapsto> Num 2,
           drawEdges \<mapsto> Bool True, drawFaces \<mapsto> Bool True, faceOpacity \<mapsto> Num 1]
      | DrawBasicGeometryOptions \<Rightarrow> [colours \<mapsto> Str ''#ff0000'', size' \<mapsto> Num 0.1]
      | _ \<Rightarrow> Map.empty)"

definition sample_playcanvas :: "int \<Rightarrow> (int, string, int) playcanvas" where
  "sample_playcanvas failAt =
     \<lparr> construct = sampleConstruct,
       typeError = ''TypeError'',
       BitByBitBase = sampleCall failAt id,
       occt_shapes_wire_createPolylineWire = (\<lambda>bb pts. sampleCall failAt id),
       occt_shapes_face_createFaceFromWire = (\<lambda>bb x planar. sampleCall failAt id),
       occt_operations_revolve = (\<lambda>bb r ob. sampleCall failAt id),
       draw_drawAnyAsync = (\<lambda>bb ent r ob. sampleCall failAt (\<lambda>w. ())),
       initPlayCanvas = (\<lambda>r hp. sampleCall failAt (\<lambda>w. (w, 50 + w))),
       initBitByBit_playcanvas = (\<lambda>app scene bb opts. sampleCall failAt (\<lambda>w. ())) \<rparr>"

definition sample_babylonjs :: "int \<Rightarrow> (int, string, int) babylonjs" where
  "sample_babylonjs failAt =
     \<lparr> construct = sampleConstruct,
       typeError = ''TypeError'',
       BitByBitBase = sampleCall failAt id,
       occt_shapes_wire_createPolylineWire = (\<lambda>bb pts. sampleCall failAt id),
       occt_shapes_face_createFaceFromWire = (\<lambda>bb x planar. sampleCall failAt id),
       occt_operations_revolve = (\<lambda>bb r ob. sampleCall failAt id),
       draw_drawAnyAsync = (\<lambda>bb ent r ob. sampleCall failAt (\<lambda>w. ())),
       initBabylonJS = (\<lambda>r hp. sampleCall failAt (\<lambda>w. (w, 50 + w))),
       initBitByBit_babylonjs = (\<lambda>scene bb opts. sampleCall failAt (\<lambda>w. ())),
       engine_runRenderLoop = (\<lambda>engine callback. sampleCall failAt (\<lambda>w. ())),
       scene_activeCamera = (\<lambda>scene w. True),
       scene_render = (\<lambda>scene. sampleCall failAt (\<lambda>w. ())) \<rparr>"

section \<open>What a run leaves behind\<close>

text \<open>The world of the libraries when \<^verbatim>\<open>start()\<close> has ended, normally or with an error.\<close>

definition finalWorld_playcanvas :: "('w, 'e, 'h) playcanvas \<Rightarrow> 'w \<Rightarrow> 'w" where
  "finalWorld_playcanvas pkg w = world (snd (start_playcanvas pkg (initial w)))"

definition finalWorld_babylonjs :: "('w, 'e, 'h) babylonjs \<Rightarrow> 'w \<Rightarrow> 'w" where
  "finalWorld_babylonjs pkg w = world (snd (start_babylonjs pkg (initial w)))"

text \<open>The part of a history before the start of the render loop.\<close>

definition beforeRenderLoop :: "('w, 'e, 'h) event list \<Rightarrow> ('w, 'e, 'h) event list" where
  "beforeRenderLoop tr = takeWhile (\<lambda>ev. \<not> startsRenderLoop ev) tr"

text \<open>The requests of a history that have completed successfully, in the order of completion.\<close>

fun fulfilledOf :: "('w, 'e, 'h) event \<Rightarrow> ('w, 'e, 'h) request list" where
  "fulfilledOf (Settled r (Fulfilled hs)) = [r]"
| "fulfilledOf ev = []"

definition completedRequests :: "('w, 'e, 'h) event list \<Rightarrow> ('w, 'e, 'h) request list" where
  "completedRequests tr = concat (map fulfilledOf tr)"

section \<open>The geometry kernel of the specification\<close>

text \<open>
  Modelled from the spec: the geometry kernel (the OCCT binding behind
  \<^verbatim>\<open>bitbybit.occt.shapes.wire\<close>, \<^verbatim>\<open>bitbybit.occt.shapes.face\<close> and \<^verbatim>\<open>bitbybit.occt.operations\<close>) is not
  among the source files.  Section 3 of the specification names its three kinds of value: a
  Wire is built from the ordered points of a profile, a Face from a planar closed Wire, and a
  Solid is ``produced by revolving a Face around an axis through the origin along Direction by
  an angle'', the angle in degrees.  A value is represented by the data it was built from.
\<close>

datatype geometry = Wire "Point3 list" | Face "Point3 list" | Solid "Point3 list" Point3 real

text \<open>
  Modelled from the spec: the kernel is not among the source files; the sum of two vectors,
  used to say what lies in the plane of a profile.
\<close>

fun plusP :: "Point3 \<Rightarrow> Point3 \<Rightarrow> Point3" where
  "plusP (x, y, z) (u, v, w) = (x + u, y + v, z + w)"

text \<open>
  Modelled from the spec: the kernel is not among the source files; the point reached from
  \<open>p\<close> after \<open>t\<close> steps in direction \<open>u\<close>.
\<close>

fun along :: "Point3 \<Rightarrow> Point3 \<Rightarrow> real \<Rightarrow> Point3" where
  "along (x, y, z) (u, v, w) t = (x + t * u, y + t * v, z + t * w)"

text \<open>
  Modelled from the spec: the kernel is not among the source files.  Wire construction is to
  ``connect the ordered points into a closed curve'' (section 2): the straight edge between two
  consecutive points.
\<close>

fun segment :: "Point3 \<Rightarrow> Point3 \<Rightarrow> Point3 set" where
  "segment (x, y, z) (x', y', z') =
     {along (x, y, z) (x' - x, y' - y, z' - z) t | t. 0 \<le> t \<and> t \<le> 1}"

text \<open>
  Modelled from the spec: the kernel is not among the source files; the edges of a wire, one
  for each pair of consecutive points (glossary: a wire is ``a connected, ordered sequence of
  edges'').
\<close>

fun edgesOf :: "Point3 list \<Rightarrow> (Point3 \<times> Point3) list" where
  "edgesOf (p # q # ps) = (p, q) # edgesOf (q # ps)"
| "edgesOf ps = []"

text \<open>
  Modelled from the spec: the kernel is not among the source files; the points of the curve
  that connects the points of a profile.
\<close>

definition curveOf :: "Point3 list \<Rightarrow> Point3 set" where
  "curveOf ps = (\<Union>(p, q) \<in> set (edgesOf ps). segment p q)"

text \<open>
  Modelled from the spec: the kernel is not among the source files.  Section 8: face
  construction succeeds ``if and only if the points are coplanar and non-self-intersecting''.
  Points are coplanar when one plane \<open>a x + b y + c z = d\<close> holds them all.
\<close>

definition coplanar :: "Point3 list \<Rightarrow> bool" where
  "coplanar ps =
     (\<exists>a b c d. (a, b, c) \<noteq> (0, 0, 0) \<and>
        (\<forall>p \<in> set ps. a * xCoord p + b * yCoord p + c * zCoord p = d))"

text \<open>
  Modelled from the spec: the kernel is not among the source files.  A closed profile does not
  intersect itself when two of its edges meet only where the curve passes from one to the
  next: consecutive edges in their common point, the last edge and the first in the point
  where the curve closes.
\<close>

definition nonSelfIntersecting :: "Point3 list \<Rightarrow> bool" where
  "nonSelfIntersecting ps =
     (\<forall>i j. i < j \<and> j < length (edgesOf ps) \<longrightarrow>
        (case (edgesOf ps ! i, edgesOf ps ! j) of
           ((a, b), (c, d)) \<Rightarrow>
             segment a b \<inter> segment c d
               \<subseteq> (if j = Suc i then {b}
                   else if i = 0 \<and> Suc j = length (edgesOf ps) then {a} else {})))"

text \<open>
  Modelled from the spec: the kernel is not among the source files.  Face construction is to
  ``fill the planar wire into a face'' (section 2).  The filled region is the part of the plane
  that the curve encloses: the points of the plane from which every ray within the plane
  meets the curve.
\<close>

definition enclosed :: "Point3 list \<Rightarrow> Point3 set" where
  "enclosed ps =
     {p. coplanar (p # ps) \<and>
         (\<forall>u. u \<noteq> (0, 0, 0) \<and> coplanar (plusP p u # ps)
               \<longrightarrow> (\<exists>t\<ge>0. along p u t \<in> curveOf ps))}"

text \<open>
  Modelled from the spec: the kernel is not among the source files.  The rotation of a point
  by an angle in degrees around the axis through the origin along a direction (section 3),
  by the formula of Rodrigues on the normalised direction.
\<close>

fun rotateAbout :: "Point3 \<Rightarrow> real \<Rightarrow> Point3 \<Rightarrow> Point3" where
  "rotateAbout (dx, dy, dz) deg (x, y, z) =
     (let n = sqrt (dx\<^sup>2 + dy\<^sup>2 + dz\<^sup>2);
          kx = dx / n; ky = dy / n; kz = dz / n;
          c = cos (deg * pi / 180); s = sin (deg * pi / 180);
          kv = kx * x + ky * y + kz * z
      in (x * c + (ky * z - kz * y) * s + kx * kv * (1 - c),
          y * c + (kz * x - kx * z) * s + ky * kv * (1 - c),
          z * c + (kx * y - ky * x) * s + kz * kv * (1 - c)))"

text \<open>
  Modelled from the spec: the kernel is not among the source files.  The points of a value of
  the kernel: a wire is its curve, a face the region its curve encloses, and a solid is what
  the face sweeps when it is revolved around the axis by every angle from 0 to the given one
  (glossary: ``sweeping a 2D profile around an axis through a specified angle'').
\<close>

fun pointsOf :: "geometry \<Rightarrow> Point3 set" where
  "pointsOf (Wire ps) = curveOf ps"
| "pointsOf (Face ps) = enclosed ps"
| "pointsOf (Solid ps d a) = {rotateAbout d t p | p t. p \<in> enclosed ps \<and> 0 \<le> t \<and> t \<le> a}"

text \<open>
  Modelled from the spec: the kernel is not among the source files.  Section 8 names the
  outcome of the scenario ``a ring-shaped solid whose inner radius is about 5 and outer radius
  about 10, centered on the Y-axis''.  A set of points is such a ring when every point is at a
  distance from the Y axis between the two radii, both radii are attained, and with a point
  the set holds the whole circle around the Y axis through it.
\<close>

definition ringAroundY :: "Point3 set \<Rightarrow> real \<Rightarrow> real \<Rightarrow> bool" where
  "ringAroundY S rin rout =
     ((\<forall>q \<in> S. rin \<le> distFromYAxis q \<and> distFromYAxis q \<le> rout) \<and>
      (\<exists>q \<in> S. distFromYAxis q = rin) \<and>
      (\<exists>q \<in> S. distFromYAxis q = rout) \<and>
      (\<forall>q \<in> S. \<forall>q'. yCoord q' = yCoord q \<and> distFromYAxis q' = distFromYAxis q \<longrightarrow> q' \<in> S))"

text \<open>
  Modelled from the spec: \<^verbatim>\<open>createPolylineWire\<close> is not among the source files.  Section 6:
  \<^verbatim>\<open>createWireFromPoints(points) -> Wire\<close>; the wire of the given points.  A handle of the kernel
  is the value itself, \<open>Inl g\<close>; the handles of the other libraries are \<open>Inr x\<close>.
\<close>

definition kernel_createPolylineWire ::
  "geometry + 'x \<Rightarrow> Point3 list \<Rightarrow> 'w \<Rightarrow> ('e + geometry + 'x) \<times> 'w" where
  "kernel_createPolylineWire bb points w = (Inr (Inl (Wire points)), w)"

text \<open>
  Modelled from the spec: \<^verbatim>\<open>createFaceFromWire\<close> is not among the source files.  Section 6:
  \<^verbatim>\<open>createFaceFromWire(wire, planar:boolean) -> Face\<close>.  Sections 4.2 and 8: it fails ``if the
  wire is not planar or not closed'', and for a closed profile of at least three points it
  succeeds ``if and only if the points are coplanar and non-self-intersecting''.
\<close>

definition kernel_createFaceFromWire ::
  "'e \<Rightarrow> geometry + 'x \<Rightarrow> geometry + 'x \<Rightarrow> bool \<Rightarrow> 'w \<Rightarrow> ('e + geometry + 'x) \<times> 'w" where
  "kernel_createFaceFromWire err bb wire planar w =
     (case wire of
        Inl (Wire ps) \<Rightarrow>
          if planar \<and> closedProfile ps \<and> coplanar ps \<and> nonSelfIntersecting ps
          then (Inr (Inl (Face ps)), w)
          else (Inl err, w)
      | _ \<Rightarrow> (Inl err, w))"

text \<open>
  Modelled from the spec: \<^verbatim>\<open>revolve\<close> is not among the source files.  Section 6:
  \<^verbatim>\<open>revolve(face, direction, angleDegrees) -> Solid\<close>.  Section 3: the direction is not the zero
  vector and the angle is in degrees, from 0 to 360; section 8: an angle of 0 is ``never a
  full revolution'', here an error.
\<close>

definition kernel_revolve ::
  "'e \<Rightarrow> geometry + 'x \<Rightarrow> ref \<Rightarrow> (geometry + 'x) obj \<Rightarrow> 'w \<Rightarrow> ('e + geometry + 'x) \<times> 'w" where
  "kernel_revolve err bb r ob w =
     (case (ob shape, ob direction, ob angle) of
        (Some (Host (Inl (Face ps))), Some (Vec3 d), Some (Num a)) \<Rightarrow>
          if d \<noteq> (0, 0, 0) \<and> 0 < a \<and> a \<le> 360
          then (Inr (Inl (Solid ps d a)), w)
          else (Inl err, w)
      | _ \<Rightarrow> (Inl err, w))"

text \<open>
  Modelled from the spec: the kernel is not among the source files.  Any libraries, with the
  three geometry functions replaced by the kernel of the specification; \<open>err\<close> is the error
  the kernel fails with.
\<close>

definition withKernel ::
  "'e \<Rightarrow> ('w, 'e, geometry + 'x, 'z) bitbybit_scheme \<Rightarrow> ('w, 'e, geometry + 'x, 'z) bitbybit_scheme" where
  "withKernel err pkg =
     pkg\<lparr> occt_shapes_wire_createPolylineWire := kernel_createPolylineWire,
          occt_shapes_face_createFaceFromWire := kernel_createFaceFromWire err,
          occt_operations_revolve := kernel_revolve err \<rparr>"

text \<open>
  Sample libraries without a kernel of their own, to be run with the kernel of the
  specification: their other calls are those of the sample libraries above.
\<close>

definition kernelless_playcanvas :: "int \<Rightarrow> (int, string, geometry + int) playcanvas" where
  "kernelless_playcanvas failAt =
     \<lparr> construct = (\<lambda>c. Map.empty),
       typeError = ''TypeError'',
       BitByBitBase = sampleCall failAt Inr,
       occt_shapes_wire_createPolylineWire = (\<lambda>bb pts w. (Inl ''no kernel'', w)),
       occt_shapes_face_createFaceFromWire = (\<lambda>bb x planar w. (Inl ''no kernel'', w)),
       occt_operations_revolve = (\<lambda>bb r ob w. (Inl ''no kernel'', w)),
       draw_drawAnyAsync = (\<lambda>bb ent r ob. sampleCall failAt (\<lambda>w. ())),
       initPlayCanvas = (\<lambda>r hp. sampleCall failAt (\<lambda>w. (Inr w, Inr (50 + w)))),
       initBitByBit_playcanvas = (\<lambda>app scene bb opts. sampleCall failAt (\<lambda>w. ())) \<rparr>"

definition kernelless_babylonjs :: "int \<Rightarrow> (int, string, geometry + int) babylonjs" where
  "kernelless_babylonjs failAt =
     \<lparr> construct = (\<lambda>c. Map.empty),
       typeError = ''TypeError'',
       BitByBitBase = sampleCall failAt Inr,
       occt_shapes_wire_createPolylineWire = (\<lambda>bb pts w. (Inl ''no kernel'', w)),
       occt_shapes_face_createFaceFromWire = (\<lambda>bb x planar w. (Inl ''no kernel'', w)),
       occt_operations_revolve = (\<lambda>bb r ob w. (Inl ''no kernel'', w)),
       draw_drawAnyAsync = (\<lambda>bb ent r ob. sampleCall failAt (\<lambda>w. ())),
       initBabylonJS = (\<lambda>r hp. sampleCall failAt (\<lambda>w. (Inr w, Inr (50 + w)))),
       initBitByBit_babylonjs = (\<lambda>scene bb opts. sampleCall failAt (\<lambda>w. ())),
       engine_runRenderLoop = (\<lambda>engine callback. sampleCall failAt (\<lambda>w. ())),
       scene_activeCamera = (\<lambda>scene w. True),
       scene_render = (\<lambda>scene. sampleCall failAt (\<lambda>w. ())) \<rparr>"

section \<open>The renderer and the host of the specification\<close>

text \<open>
  Modelled from the spec: the renderer behind \<^verbatim>\<open>bitbybit.draw.drawAnyAsync\<close> is not among the
  source files.  Section 3: a style record is a ``record of presentation attributes (colors,
  edge width, opacity, face/edge visibility toggles)''.  What the renderer shows of an entity:
  of a shape its faces and its edges, each either absent or with the attributes it is shown
  with; of a polyline its points with colour and size.
\<close>

datatype 'h shown =
    ShownShape 'h "'h jsval option list option" "'h jsval option list option"
  | ShownPolyline "Point3 list" "'h jsval option list"

text \<open>
  Modelled from the spec: the renderer is not among the source files.  The toggles
  \<^verbatim>\<open>drawFaces\<close> and \<^verbatim>\<open>drawEdges\<close> decide whether the faces and the edges of a shape are shown;
  the face attributes (\<^verbatim>\<open>faceColour\<close>, \<^verbatim>\<open>faceOpacity\<close>, \<^verbatim>\<open>drawTwoSided\<close>, \<^verbatim>\<open>backFaceColour\<close>,
  \<^verbatim>\<open>backFaceOpacity\<close>) reach the picture only with the faces, the edge attributes
  (\<^verbatim>\<open>edgeColour\<close>, \<^verbatim>\<open>edgeWidth\<close>) only with the edges.
\<close>

fun visible :: "'h entity \<Rightarrow> 'h obj \<Rightarrow> 'h shown" where
  "visible (OcctShape s) ob =
     ShownShape s
       (if ob drawFaces = Some (Bool True)
        then Some [ob faceColour, ob faceOpacity, ob drawTwoSided, ob backFaceColour,
                   ob backFaceOpacity]
        else None)
       (if ob drawEdges = Some (Bool True) then Some [ob edgeColour, ob edgeWidth] else None)"
| "visible (Polyline3 pts) ob = ShownPolyline pts [ob colours, ob size']"

text \<open>
  Modelled from the spec: the hosting environment is not among the source files.  Section 5:
  ``the only long-lived resource is the rendering surface/loop''.  The host holds what has
  been drawn on the rendering surface and the engines whose render loop is running.
\<close>

record 'h host =
  screen :: "'h shown list"
  running :: "'h list"

text \<open>
  Modelled from the spec: the hosting environment is not among the source files; the host
  before the script runs.
\<close>

definition nothingYet :: "'h host" where
  "nothingYet = \<lparr>screen = [], running = []\<rparr>"

text \<open>
  Modelled from the spec: the hosting environment is not among the source files.  A library
  call that neither draws nor starts a loop leaves the host as it is, whatever else it does.
\<close>

definition lift :: "('w \<Rightarrow> 'r \<times> 'w) \<Rightarrow> 's \<times> 'w \<Rightarrow> 'r \<times> ('s \<times> 'w)" where
  "lift f = (\<lambda>(s, w). case f w of (r, w') \<Rightarrow> (r, (s, w')))"

text \<open>
  Modelled from the spec: the renderer is not among the source files.  Section 6:
  \<^verbatim>\<open>draw(entity, styleOptions)\<close>; a drawing call that succeeds puts what is visible of the
  entity under its style record on the rendering surface, one that fails puts nothing there.
\<close>

definition hosted_drawAnyAsync ::
  "('h \<Rightarrow> 'h entity \<Rightarrow> ref \<Rightarrow> 'h obj \<Rightarrow> 'w \<Rightarrow> ('e + unit) \<times> 'w)
     \<Rightarrow> 'h \<Rightarrow> 'h entity \<Rightarrow> ref \<Rightarrow> 'h obj \<Rightarrow> 'h host \<times> 'w \<Rightarrow> ('e + unit) \<times> ('h host \<times> 'w)" where
  "hosted_drawAnyAsync inner bb ent r ob =
     (\<lambda>(h, w). case inner bb ent r ob w of
        (Inl e, w') \<Rightarrow> (Inl e, (h, w'))
      | (Inr u, w') \<Rightarrow> (Inr u, (h\<lparr>screen := screen h @ [visible ent ob]\<rparr>, w')))"

text \<open>
  Modelled from the spec: the engine behind \<^verbatim>\<open>engine.runRenderLoop\<close> is not among the source
  files.  Section 5: the loop ``is started once at the end and then runs indefinitely under
  the hosting environment's own scheduling (frame callback)''.  A call that succeeds
  registers the loop of the engine with the host and returns; one that fails registers
  nothing.
\<close>

definition hosted_runRenderLoop ::
  "('h \<Rightarrow> ('w \<Rightarrow> ('e + unit) \<times> 'w) \<Rightarrow> 'w \<Rightarrow> ('e + unit) \<times> 'w)
     \<Rightarrow> 'h \<Rightarrow> ('h host \<times> 'w \<Rightarrow> ('e + unit) \<times> ('h host \<times> 'w))
     \<Rightarrow> 'h host \<times> 'w \<Rightarrow> ('e + unit) \<times> ('h host \<times> 'w)" where
  "hosted_runRenderLoop inner engine callback =
     (\<lambda>(h, w). case inner engine (\<lambda>w0. case callback (h, w0) of (r, (h', w')) \<Rightarrow> (r, w')) w of
        (Inl e, w') \<Rightarrow> (Inl e, (h, w'))
      | (Inr u, w') \<Rightarrow> (Inr u, (h\<lparr>running := running h @ [engine]\<rparr>, w')))"

text \<open>
  Modelled from the spec: the renderer and the hosting environment are not among the source
  files.  Any PlayCanvas libraries, run under the host: the drawing call draws on the
  rendering surface, every other call leaves the host as it is.
\<close>

definition hosted_playcanvas ::
  "('w, 'e, 'h) playcanvas \<Rightarrow> ('h host \<times> 'w, 'e, 'h) playcanvas" where
  "hosted_playcanvas pkg =
     \<lparr> construct = construct pkg,
       typeError = typeError pkg,
       BitByBitBase = lift (BitByBitBase pkg),
       occt_shapes_wire_createPolylineWire =
         (\<lambda>bb pts. lift (occt_shapes_wire_createPolylineWire pkg bb pts)),
       occt_shapes_face_createFaceFromWire =
         (\<lambda>bb x planar. lift (occt_shapes_face_createFaceFromWire pkg bb x planar)),
       occt_operations_revolve = (\<lambda>bb r ob. lift (occt_operations_revolve pkg bb r ob)),
       draw_drawAnyAsync = hosted_drawAnyAsync (draw_drawAnyAsync pkg),
       initPlayCanvas = (\<lambda>r hp. lift (initPlayCanvas pkg r hp)),
       initBitByBit_playcanvas =
         (\<lambda>app scene bb opts. lift (initBitByBit_playcanvas pkg app scene bb opts)) \<rparr>"

text \<open>
  Modelled from the spec: the renderer, the engine and the hosting environment are not among
  the source files.  Any BabylonJS libraries, run under the host: the drawing call draws on
  the rendering surface, \<^verbatim>\<open>runRenderLoop\<close> registers the loop, every other call (rendering a
  frame included) leaves the host as it is.
\<close>

definition hosted_babylonjs ::
  "('w, 'e, 'h) babylonjs \<Rightarrow> ('h host \<times> 'w, 'e, 'h) babylonjs" where
  "hosted_babylonjs pkg =
     \<lparr> construct = construct pkg,
       typeError = typeError pkg,
       BitByBitBase = lift (BitByBitBase pkg),
       occt_shapes_wire_createPolylineWire =
         (\<lambda>bb pts. lift (occt_shapes_wire_createPolylineWire pkg bb pts)),
       occt_shapes_face_createFaceFromWire =
         (\<lambda>bb x planar. lift (occt_shapes_face_createFaceFromWire pkg bb x planar)),
       occt_operations_revolve = (\<lambda>bb r ob. lift (occt_operations_revolve pkg bb r ob)),
       draw_drawAnyAsync = hosted_drawAnyAsync (draw_drawAnyAsync pkg),
       initBabylonJS = (\<lambda>r hp. lift (initBabylonJS pkg r hp)),
       initBitByBit_babylonjs =
         (\<lambda>scene bb opts. lift (initBitByBit_babylonjs pkg scene bb opts)),
       engine_runRenderLoop = hosted_runRenderLoop (engine_runRenderLoop pkg),
       scene_activeCamera = (\<lambda>scene (h, w). scene_activeCamera pkg scene w),
       scene_render = (\<lambda>scene. lift (scene_render pkg scene)) \<rparr>"

text \<open>
  Modelled from the spec: the hosting environment is not among the source files.  Section 5:
  the loop runs ``under the hosting environment's own scheduling (frame callback)''.  The host
  calls the callback of a running loop once for every frame, as many times as it pleases, and
  goes on whether the callback fails or not.
\<close>

fun frames :: "nat \<Rightarrow> ('v \<Rightarrow> ('e + unit) \<times> 'v) \<Rightarrow> 'v \<Rightarrow> 'v" where
  "frames 0 callback v = v"
| "frames (Suc n) callback v = frames n callback (snd (callback v))"

text \<open>
  Modelled from the spec: the hosting environment is not among the source files.  What an
  event of a history does to the host, and the host after a whole history.
\<close>

fun hostEffect :: "('w, 'e, 'h) event \<Rightarrow> 'h host \<Rightarrow> 'h host" where
  "hostEffect (Settled (DrawAnyAsync bb ent r ob) (Fulfilled hs)) h =
     h\<lparr>screen := screen h @ [visible ent ob]\<rparr>"
| "hostEffect (Settled (RunRenderLoop engine callback) (Fulfilled hs)) h =
     h\<lparr>running := running h @ [engine]\<rparr>"
| "hostEffect ev h = h"

definition hostAfter :: "'h host \<Rightarrow> ('w, 'e, 'h) event list \<Rightarrow> 'h host" where
  "hostAfter h tr = fold hostEffect tr h"

section \<open>Executing the statements\<close>

lemma new_step:
  "new props k \<lparr>world = w, heap = h, nextRef = n, trace = t\<rparr> =
   k n \<lparr>world = w, heap = h(n := props), nextRef = Suc n, trace = t\<rparr>"
  by (simp add: new_def)

lemma assign_step:
  "assign r f v k \<lparr>world = w, heap = h, nextRef = n, trace = t\<rparr> =
   k \<lparr>world = w, heap = h(r := (h r)(f \<mapsto> v)), nextRef = n, trace = t\<rparr>"
  by (simp add: assign_def)

lemma assignVia_step:
  "h r f = Some (Ref r') \<Longrightarrow>
   assignVia te r f g v k \<lparr>world = w, heap = h, nextRef = n, trace = t\<rparr> =
   k \<lparr>world = w, heap = h(r' := (h r')(g \<mapsto> v)), nextRef = n, trace = t\<rparr>"
  by (simp add: assignVia_def assign_def)

lemma consoleLog_step:
  "consoleLog msg k \<lparr>world = w, heap = h, nextRef = n, trace = t\<rparr> =
   k \<lparr>world = w, heap = h, nextRef = n, trace = t @ [ConsoleLog msg]\<rparr>"
  by (simp add: consoleLog_def)

lemma call_step:
  "call mk k \<lparr>world = w, heap = h, nextRef = n, trace = t\<rparr> =
    (case perform (mk h) w of
        (Inl e, w') \<Rightarrow> (Inl e, \<lparr>world = w', heap = h, nextRef = n,
            trace = t @ [Issued (request (mk h)), Settled (request (mk h)) (Rejected e)]\<rparr>)
      | (Inr a, w') \<Rightarrow> k a \<lparr>world = w', heap = h, nextRef = n,
            trace = t @ [Issued (request (mk h)),
                         Settled (request (mk h)) (Fulfilled (handlesOf (mk h) a))]\<rparr>)"
  by (simp add: call_def Let_def split: prod.split sum.split)

lemma await_step:
  "await mk k \<lparr>world = w, heap = h, nextRef = n, trace = t\<rparr> =
    (case perform (mk h) w of
        (Inl e, w') \<Rightarrow> (Inl e, \<lparr>world = w', heap = h, nextRef = n,
            trace = t @ [Issued (request (mk h)), Settled (request (mk h)) (Rejected e)]\<rparr>)
      | (Inr a, w') \<Rightarrow> k a \<lparr>world = w', heap = h, nextRef = n,
            trace = t @ [Issued (request (mk h)),
                         Settled (request (mk h)) (Fulfilled (handlesOf (mk h) a))]\<rparr>)"
  by (simp add: await_def settle_def issue_def split: prod.split sum.split)

lemmas exec_simps = new_step assign_step assignVia_step consoleLog_step call_step await_step
  finish_def initial_def
  newBitByBitBase_def createPolylineWire_def createFaceFromWire_def revolve_def
  drawAnyAsync_def initPlayCanvas_call_def initBitByBit_playcanvas_call_def
  initBabylonJS_call_def initBitByBit_babylonjs_call_def runRenderLoop_def

text \<open>
  Every run of \<open>start\<close> is the straight line of its steps, cut at the first call that fails.
  The proofs run the script symbolically, splitting on the answer of each call.
\<close>

lemmas shape_simps = okRun_def steps_playcanvas_def steps_babylonjs_def wireDrawOptions_of_def
  axisOptions_of_def revolveOptions_of_def solidDrawOptions_playcanvas_def
  solidDrawOptions_babylonjs_def

lemma playcanvas_run:
  "\<exists>scene app bb wire face solid.
     (result_playcanvas pkg w = Inr () \<and>
      trace_playcanvas pkg w = okRun (steps_playcanvas pkg scene app bb wire face solid))
   \<or> (\<exists>k<8. \<exists>e. result_playcanvas pkg w = Inl e \<and>
      trace_playcanvas pkg w = failedRun (steps_playcanvas pkg scene app bb wire face solid) k e)"
  unfolding result_playcanvas_def trace_playcanvas_def start_playcanvas_def
  by (simp add: exec_simps shape_simps Ex_less_Suc eval_nat_numeral
      split: sum.split prod.split)

lemma babylonjs_run:
  "\<exists>scene engine bb wire face solid.
     (result_babylonjs pkg w = Inr () \<and>
      trace_babylonjs pkg w = okRun (steps_babylonjs pkg scene engine bb wire face solid))
   \<or> (\<exists>k<10. \<exists>e. result_babylonjs pkg w = Inl e \<and>
      trace_babylonjs pkg w = failedRun (steps_babylonjs pkg scene engine bb wire face solid) k e)"
  unfolding result_babylonjs_def trace_babylonjs_def start_babylonjs_def
  by (simp add: exec_simps shape_simps Ex_less_Suc eval_nat_numeral
      split: sum.split prod.split)

text \<open>
  The history of a run records the libraries faithfully: it replays their answers from the
  world the run started in.
\<close>

lemma playcanvas_replays:
  "replays (answer_playcanvas pkg) w (trace_playcanvas pkg w)"
  unfolding trace_playcanvas_def start_playcanvas_def
  by (simp add: exec_simps sceneOptions_heap_def eval_nat_numeral
      split: sum.split prod.split)

lemma babylonjs_replays:
  "replays (answer_babylonjs pkg) w (trace_babylonjs pkg w)"
  unfolding trace_babylonjs_def start_babylonjs_def
  by (simp add: exec_simps babylonOptions_heap_def eval_nat_numeral
      split: sum.split prod.split)

lemma playcanvas_cases:
  obtains (ok) scene app bb wire face solid where
      "result_playcanvas pkg w = Inr ()"
      "trace_playcanvas pkg w = okRun (steps_playcanvas pkg scene app bb wire face solid)"
  | (fail) k e scene app bb wire face solid where
      "k < 8" "result_playcanvas pkg w = Inl e"
      "trace_playcanvas pkg w = failedRun (steps_playcanvas pkg scene app bb wire face solid) k e"
  using playcanvas_run[of pkg w] by blast

lemma babylonjs_cases:
  obtains (ok) scene engine bb wire face solid where
      "result_babylonjs pkg w = Inr ()"
      "trace_babylonjs pkg w = okRun (steps_babylonjs pkg scene engine bb wire face solid)"
  | (fail) k e scene engine bb wire face solid where
      "k < 10" "result_babylonjs pkg w = Inl e"
      "trace_babylonjs pkg w = failedRun (steps_babylonjs pkg scene engine bb wire face solid) k e"
  using babylonjs_run[of pkg w] by blast

lemmas observer_defs = wirePoints_def faceInputs_def revolveRequests_def drawRequests_def
  renderLoopStarts_def geometrySteps_def returned_def fromCompletion_def uptoCompletion_def
  fromRenderLoop_def rejections_def endsWithRejection_def consoleLines_def

lemmas run_simps = okRun_def steps_playcanvas_def steps_babylonjs_def

lemmas enum_simps = less_Suc_eq eval_nat_numeral

section \<open>The sample libraries at work\<close>

lemma sample_playcanvas_ok:
  "result_playcanvas (sample_playcanvas 99) 0 = Inr () \<and>
   trace_playcanvas (sample_playcanvas 99) 0 =
     okRun (steps_playcanvas (sample_playcanvas 99) 0 50 1 3 5 6)"
  unfolding result_playcanvas_def trace_playcanvas_def start_playcanvas_def
  by (simp add: exec_simps shape_simps sample_playcanvas_def sampleCall_def)

lemma sample_babylonjs_ok:
  "result_babylonjs (sample_babylonjs 99) 0 = Inr () \<and>
   trace_babylonjs (sample_babylonjs 99) 0 =
     okRun (steps_babylonjs (sample_babylonjs 99) 0 50 1 3 6 7)"
  unfolding result_babylonjs_def trace_babylonjs_def start_babylonjs_def
  by (simp add: exec_simps shape_simps sample_babylonjs_def sampleCall_def renderLoopCallback_def)

lemma sample_playcanvas_failed:
  "result_playcanvas (sample_playcanvas 6) 0 = Inl ''rejected'' \<and>
   trace_playcanvas (sample_playcanvas 6) 0 =
     failedRun (steps_playcanvas (sample_playcanvas 6) 0 50 1 3 5 0) 6 ''rejected''"
  unfolding result_playcanvas_def trace_playcanvas_def start_playcanvas_def
  by (simp add: exec_simps shape_simps sample_playcanvas_def sampleCall_def eval_nat_numeral)

lemma sample_babylonjs_failed:
  "result_babylonjs (sample_babylonjs 7) 0 = Inl ''rejected'' \<and>
   trace_babylonjs (sample_babylonjs 7) 0 =
     failedRun (steps_babylonjs (sample_babylonjs 7) 0 50 1 3 6 0) 7 ''rejected''"
  unfolding result_babylonjs_def trace_babylonjs_def start_babylonjs_def
  by (simp add: exec_simps shape_simps sample_babylonjs_def sampleCall_def eval_nat_numeral)

section \<open>The profile passed to wire construction\<close>

lemma closed_playcanvas: "closedProfile (profile_playcanvas off wd h)"
  by (simp add: closedProfile_def profile_playcanvas_def)

lemma closed_babylonjs: "closedProfile (profile_babylonjs off wd h)"
  by (simp add: closedProfile_def profile_babylonjs_def)

lemma wirePoints_playcanvas:
  "set (wirePoints (trace_playcanvas pkg w)) \<subseteq> {profilePoints_playcanvas}"
proof (cases rule: playcanvas_cases[of pkg w])
  case ok
  then show ?thesis by (simp add: run_simps observer_defs)
next
  case fail
  from fail(1) fail(3) show ?thesis by (auto simp: enum_simps run_simps observer_defs)
qed

lemma wirePoints_babylonjs:
  "set (wirePoints (trace_babylonjs pkg w)) \<subseteq> {profilePoints_babylonjs}"
proof (cases rule: babylonjs_cases[of pkg w])
  case ok
  then show ?thesis by (simp add: run_simps observer_defs)
next
  case fail
  from fail(1) fail(3) show ?thesis by (auto simp: enum_simps run_simps observer_defs)
qed

text \<open>
  Claim C1.  In every run of either script, whatever the libraries do, every point sequence
  passed to wire construction is closed and non-degenerate: it has at least three points and
  its first point equals its last.  So is what the two profile literals give for any offset,
  width and height.
\<close>

theorem profile_closed:
  "(\<forall>pts \<in> set (wirePoints (trace_playcanvas pkg w)). closedProfile pts) \<and>
   (\<forall>pts \<in> set (wirePoints (trace_babylonjs pkg' w')). closedProfile pts) \<and>
   closedProfile (profile_playcanvas off wd h) \<and>
   closedProfile (profile_babylonjs off wd h)"
  using wirePoints_playcanvas[of pkg w] wirePoints_babylonjs[of pkg' w']
  by (auto simp: profilePoints_playcanvas_def profilePoints_babylonjs_def
      closed_playcanvas closed_babylonjs)

text \<open>
  On the sample libraries both scripts do reach wire construction, with their profile.
\<close>

theorem profile_closed_witness:
  "wirePoints (trace_playcanvas (sample_playcanvas 99) 0) = [profilePoints_playcanvas] \<and>
   closedProfile profilePoints_playcanvas \<and>
   wirePoints (trace_babylonjs (sample_babylonjs 99) 0) = [profilePoints_babylonjs] \<and>
   closedProfile profilePoints_babylonjs"
  using profile_closed[of "sample_playcanvas 99" 0 "sample_babylonjs 99" 0 5 5 3]
  by (simp add: sample_playcanvas_ok sample_babylonjs_ok run_simps observer_defs)

lemma planar_playcanvas: "\<forall>p \<in> set (profile_playcanvas off wd h). zCoord p = 0"
  by (simp add: profile_playcanvas_def)

lemma planar_babylonjs: "\<forall>p \<in> set (profile_babylonjs off wd h). zCoord p = 0"
  by (simp add: profile_babylonjs_def)

text \<open>
  Claim C5.  The profile lies in the plane Z = 0: in every run of either script every point
  of every sequence passed to wire construction has z-coordinate 0; and so has every point
  the two profile literals give for any offset, width and height.
\<close>

theorem profile_planar:
  "(\<forall>pts \<in> set (wirePoints (trace_playcanvas pkg w)). \<forall>p \<in> set pts. zCoord p = 0) \<and>
   (\<forall>pts \<in> set (wirePoints (trace_babylonjs pkg' w')). \<forall>p \<in> set pts. zCoord p = 0) \<and>
   (\<forall>p \<in> set (profile_playcanvas off wd h). zCoord p = 0) \<and>
   (\<forall>p \<in> set (profile_babylonjs off wd h). zCoord p = 0)"
proof -
  have "\<forall>pts \<in> set (wirePoints (trace_playcanvas pkg w)). \<forall>p \<in> set pts. zCoord p = 0"
    using wirePoints_playcanvas[of pkg w] planar_playcanvas
    unfolding profilePoints_playcanvas_def by blast
  moreover have "\<forall>pts \<in> set (wirePoints (trace_babylonjs pkg' w')). \<forall>p \<in> set pts. zCoord p = 0"
    using wirePoints_babylonjs[of pkg' w'] planar_babylonjs
    unfolding profilePoints_babylonjs_def by blast
  ultimately show ?thesis
    using planar_playcanvas[of off wd h] planar_babylonjs[of off wd h] by blast
qed

text \<open>
  On the sample libraries both profiles reach wire construction; their z-coordinates are
  five and six zeros.
\<close>

theorem profile_planar_witness:
  "wirePoints (trace_playcanvas (sample_playcanvas 99) 0) = [profilePoints_playcanvas] \<and>
   wirePoints (trace_babylonjs (sample_babylonjs 99) 0) = [profilePoints_babylonjs] \<and>
   map zCoord profilePoints_playcanvas = [0, 0, 0, 0, 0] \<and>
   map zCoord profilePoints_babylonjs = [0, 0, 0, 0, 0, 0]"
  using profile_planar[of "sample_playcanvas 99" 0 "sample_babylonjs 99" 0 5 5 3]
  by (simp add: sample_playcanvas_ok sample_babylonjs_ok run_simps observer_defs
      profilePoints_playcanvas_def profilePoints_babylonjs_def profile_playcanvas_def
      profile_babylonjs_def)

section \<open>The ring scenario\<close>

lemma distFromYAxis_planar: "zCoord p = 0 \<Longrightarrow> distFromYAxis p = \<bar>xCoord p\<bar>"
  by (simp add: distFromYAxis_def)

lemma extent_playcanvas:
  "minX profilePoints_playcanvas = 5 \<and> maxX profilePoints_playcanvas = 10 \<and>
   Min (set (map distFromYAxis profilePoints_playcanvas)) = 5 \<and>
   Max (set (map distFromYAxis profilePoints_playcanvas)) = 10 \<and>
   (\<forall>p \<in> set profilePoints_playcanvas. 5 \<le> distFromYAxis p \<and> distFromYAxis p \<le> 10)"
  by (simp add: minX_def maxX_def profilePoints_playcanvas_def profile_playcanvas_def
      offsetFromAxis_def profileWidth_def profileHeight_def distFromYAxis_planar)

lemma extent_babylonjs:
  "minX profilePoints_babylonjs = 5 \<and> maxX profilePoints_babylonjs = 10 \<and>
   Min (set (map distFromYAxis profilePoints_babylonjs)) = 5 \<and>
   Max (set (map distFromYAxis profilePoints_babylonjs)) = 10 \<and>
   (\<forall>p \<in> set profilePoints_babylonjs. 5 \<le> distFromYAxis p \<and> distFromYAxis p \<le> 10)"
  by (simp add: minX_def maxX_def profilePoints_babylonjs_def profile_babylonjs_def
      offsetFromAxis_def profileWidth_def profileHeight_def distFromYAxis_planar)

lemma revolve_arguments_playcanvas:
  "\<forall>(r, ob) \<in> set (revolveRequests (trace_playcanvas pkg w)).
     ob direction = Some (Vec3 (0, 1, 0)) \<and> ob angle = Some (Num 360)"
proof (cases rule: playcanvas_cases[of pkg w])
  case ok
  then show ?thesis by (simp add: run_simps observer_defs revolveOptions_of_def)
next
  case fail
  from fail(1) fail(3) show ?thesis
    by (auto simp: enum_simps run_simps observer_defs revolveOptions_of_def)
qed

lemma revolve_arguments_babylonjs:
  "\<forall>(r, ob) \<in> set (revolveRequests (trace_babylonjs pkg w)).
     ob direction = Some (Vec3 (0, 1, 0)) \<and> ob angle = Some (Num 360)"
proof (cases rule: babylonjs_cases[of pkg w])
  case ok
  then show ?thesis by (simp add: run_simps observer_defs revolveOptions_of_def)
next
  case fail
  from fail(1) fail(3) show ?thesis
    by (auto simp: enum_simps run_simps observer_defs revolveOptions_of_def)
qed

subsection \<open>The solid of the kernel\<close>

lemmas profile_defs = profilePoints_playcanvas_def profilePoints_babylonjs_def
  profile_playcanvas_def profile_babylonjs_def offsetFromAxis_def profileWidth_def
  profileHeight_def

lemma coplanar_playcanvas: "coplanar profilePoints_playcanvas"
  unfolding coplanar_def
  by (rule exI[of _ 0], rule exI[of _ 0], rule exI[of _ 1], rule exI[of _ 0])
     (simp add: profile_defs)

lemma coplanar_babylonjs: "coplanar profilePoints_babylonjs"
  unfolding coplanar_def
  by (rule exI[of _ 0], rule exI[of _ 0], rule exI[of _ 1], rule exI[of _ 0])
     (simp add: profile_defs)

lemma curve_playcanvas:
  "q \<in> curveOf profilePoints_playcanvas \<Longrightarrow> 5 \<le> xCoord q \<and> xCoord q \<le> 10 \<and> zCoord q = 0"
  by (auto simp: curveOf_def profile_defs)

lemma curve_babylonjs:
  "q \<in> curveOf profilePoints_babylonjs \<Longrightarrow> 5 \<le> xCoord q \<and> xCoord q \<le> 10 \<and> zCoord q = 0"
  by (auto simp: curveOf_def profile_defs)


lemma plane_of_profile:
  assumes "a * 5 = d" "a * 5 + b * 3 = d" "a * 10 + b * 3 = d" "(a, b, c) \<noteq> (0, 0, 0)"
    "a * x + b * y + c * z = (d::real)"
  shows "z = 0"
proof -
  from assms(1,2) have b: "b = 0" by simp
  from assms(1,3) b have a: "a = 0" by simp
  from a assms(1) have d: "d = 0" by simp
  from a b assms(4) have "c \<noteq> 0" by simp
  with a b d assms(5) show ?thesis by simp
qed

lemma flat_of_profile:
  assumes "coplanar (p # ps)" "(5, 0, 0) \<in> set ps" "(5, 3, 0) \<in> set ps" "(10, 3, 0) \<in> set ps"
  shows "zCoord p = 0"
proof -
  from assms(1) obtain a b c d where nz: "(a, b, c) \<noteq> (0, 0, 0)"
    and pl: "\<forall>q \<in> set (p # ps). a * xCoord q + b * yCoord q + c * zCoord q = d"
    unfolding coplanar_def by blast
  from pl assms(2) have "a * xCoord (5, 0, 0) + b * yCoord (5, 0, 0) + c * zCoord (5, 0, 0) = d"
    by (meson list.set_intros(2))
  then have e1: "a * 5 = d" by simp
  from pl assms(3) have "a * xCoord (5, 3, 0) + b * yCoord (5, 3, 0) + c * zCoord (5, 3, 0) = d"
    by (meson list.set_intros(2))
  then have e2: "a * 5 + b * 3 = d" by simp
  from pl assms(4) have "a * xCoord (10, 3, 0) + b * yCoord (10, 3, 0) + c * zCoord (10, 3, 0) = d"
    by (meson list.set_intros(2))
  then have e3: "a * 10 + b * 3 = d" by simp
  from pl have "a * xCoord p + b * yCoord p + c * zCoord p = d" by simp
  with e1 e2 e3 nz show ?thesis using plane_of_profile by blast
qed

lemma flat_coplanar:
  assumes "\<forall>q \<in> set ps. zCoord q = 0"
  shows "coplanar ps"
  unfolding coplanar_def
  by (rule exI[of _ 0], rule exI[of _ 0], rule exI[of _ 1], rule exI[of _ 0]) (simp add: assms)

lemma enclosed_in_strip:
  assumes p: "p \<in> enclosed ps"
    and corners: "(5, 0, 0) \<in> set ps" "(5, 3, 0) \<in> set ps" "(10, 3, 0) \<in> set ps"
    and flat: "\<forall>q \<in> set ps. zCoord q = 0"
    and curve: "\<And>q. q \<in> curveOf ps \<Longrightarrow> 5 \<le> xCoord q \<and> xCoord q \<le> 10 \<and> zCoord q = 0"
  shows "zCoord p = 0 \<and> 5 \<le> xCoord p \<and> xCoord p \<le> 10"
proof -
  obtain x y z where xyz: "p = (x, y, z)" by (cases p)
  from p have cp: "coplanar (p # ps)" unfolding enclosed_def by simp
  from flat_of_profile[OF cp corners] have z: "z = 0" by (simp add: xyz)
  from p have rays: "\<And>u. u \<noteq> (0, 0, 0) \<Longrightarrow> coplanar (plusP p u # ps)
      \<Longrightarrow> \<exists>t\<ge>0. along p u t \<in> curveOf ps"
    unfolding enclosed_def by blast
  have "coplanar (plusP p (- 1, 0, 0) # ps)"
    by (rule flat_coplanar) (simp add: xyz z flat)
  with rays[of "(- 1, 0, 0)"] obtain t where "0 \<le> t" "along p (- 1, 0, 0) t \<in> curveOf ps"
    by auto
  with curve[of "along p (- 1, 0, 0) t"] have lo: "5 \<le> x" by (simp add: xyz)
  have "coplanar (plusP p (1, 0, 0) # ps)"
    by (rule flat_coplanar) (simp add: xyz z flat)
  with rays[of "(1, 0, 0)"] obtain t where "0 \<le> t" "along p (1, 0, 0) t \<in> curveOf ps"
    by auto
  with curve[of "along p (1, 0, 0) t"] have hi: "x \<le> 10" by (simp add: xyz)
  from z lo hi show ?thesis by (simp add: xyz)
qed

lemma enclosed_playcanvas:
  assumes "p \<in> enclosed profilePoints_playcanvas"
  shows "zCoord p = 0 \<and> 5 \<le> xCoord p \<and> xCoord p \<le> 10"
  by (rule enclosed_in_strip[OF assms]) (simp_all add: profile_defs curve_playcanvas)

lemma enclosed_babylonjs:
  assumes "p \<in> enclosed profilePoints_babylonjs"
  shows "zCoord p = 0 \<and> 5 \<le> xCoord p \<and> xCoord p \<le> 10"
  by (rule enclosed_in_strip[OF assms]) (simp_all add: profile_defs curve_babylonjs)

lemma on_curve_enclosed:
  assumes "p \<in> curveOf ps" "coplanar (p # ps)"
  shows "p \<in> enclosed ps"
proof -
  have "along p u 0 = p" for u by (cases p, cases u) simp
  with assms show ?thesis unfolding enclosed_def by force
qed

lemma corners_playcanvas:
  "(5, 0, 0) \<in> enclosed profilePoints_playcanvas \<and> (10, 0, 0) \<in> enclosed profilePoints_playcanvas"
proof -
  have c1: "(5, 0, 0) \<in> curveOf profilePoints_playcanvas"
    unfolding curveOf_def by (auto simp: profile_defs intro: exI[of _ 0])
  have c2: "(10, 0, 0) \<in> curveOf profilePoints_playcanvas"
    unfolding curveOf_def by (auto simp: profile_defs intro: exI[of _ 0])
  have f: "coplanar ((x, y, 0) # profilePoints_playcanvas)" for x y
    by (rule flat_coplanar) (simp add: profile_defs)
  from c1 c2 f show ?thesis by (simp add: on_curve_enclosed)
qed

lemma corners_babylonjs:
  "(5, 0, 0) \<in> enclosed profilePoints_babylonjs \<and> (10, 0, 0) \<in> enclosed profilePoints_babylonjs"
proof -
  have c1: "(5, 0, 0) \<in> curveOf profilePoints_babylonjs"
    unfolding curveOf_def by (auto simp: profile_defs intro: exI[of _ 0])
  have c2: "(10, 0, 0) \<in> curveOf profilePoints_babylonjs"
    unfolding curveOf_def by (auto simp: profile_defs intro: exI[of _ 0])
  have f: "coplanar ((x, y, 0) # profilePoints_babylonjs)" for x y
    by (rule flat_coplanar) (simp add: profile_defs)
  from c1 c2 f show ?thesis by (simp add: on_curve_enclosed)
qed

lemma rotate_about_Y:
  "rotateAbout (0, 1, 0) t (x, y, z) =
     (x * cos (t * pi / 180) + z * sin (t * pi / 180), y,
      z * cos (t * pi / 180) - x * sin (t * pi / 180))"
  by (simp add: Let_def algebra_simps)

declare rotateAbout.simps [simp del]

lemma dist_rotate_about_Y: "distFromYAxis (rotateAbout (0, 1, 0) t p) = distFromYAxis p"
proof -
  obtain x y z where p: "p = (x, y, z)" by (cases p)
  have "(x * cos u + z * sin u)\<^sup>2 + (z * cos u - x * sin u)\<^sup>2 = x\<^sup>2 + z\<^sup>2" for u :: real
  proof -
    have "(x * cos u + z * sin u)\<^sup>2 + (z * cos u - x * sin u)\<^sup>2
        = (x\<^sup>2 + z\<^sup>2) * ((sin u)\<^sup>2 + (cos u)\<^sup>2)"
      by algebra
    then show ?thesis by simp
  qed
  then show ?thesis by (simp add: p rotate_about_Y distFromYAxis_def)
qed

lemma yCoord_rotate_about_Y: "yCoord (rotateAbout (0, 1, 0) t p) = yCoord p"
  by (cases p) (simp add: rotate_about_Y)

lemma full_turn_reaches:
  assumes "0 < x" "x'\<^sup>2 + z'\<^sup>2 = x\<^sup>2"
  shows "\<exists>t. 0 \<le> t \<and> t \<le> 360 \<and> rotateAbout (0, 1, 0) t (x, y, 0) = (x', y, z')"
proof -
  from assms have "(x' / x)\<^sup>2 + (- z' / x)\<^sup>2 = 1"
    by (simp add: power_divide add_divide_distrib[symmetric])
  then obtain u where u: "0 \<le> u" "u < 2 * pi" "x' / x = cos u" "- z' / x = sin u"
    using sincos_total_2pi by blast
  define t where "t = u * 180 / pi"
  have tu: "t * pi / 180 = u" by (simp add: t_def)
  from u(1) have "0 \<le> t" by (simp add: t_def)
  moreover from u(2) have "t \<le> 360"
    by (simp add: t_def pos_divide_le_eq)
  moreover from u(3,4) assms(1) have "x * cos u = x'" "- (x * sin u) = z'"
    by (simp_all add: field_simps)
  then have "rotateAbout (0, 1, 0) t (x, y, 0) = (x', y, z')"
    by (simp add: rotate_about_Y tu)
  ultimately show ?thesis by blast
qed

lemma ring_of_strip:
  assumes strip: "\<And>p. p \<in> enclosed ps \<Longrightarrow> zCoord p = 0 \<and> 5 \<le> xCoord p \<and> xCoord p \<le> 10"
    and corners: "(5, 0, 0) \<in> enclosed ps" "(10, 0, 0) \<in> enclosed ps"
  shows "ringAroundY (pointsOf (Solid ps (0, 1, 0) 360)) 5 10"
proof -
  have flat_dist: "distFromYAxis p = xCoord p" if "p \<in> enclosed ps" for p
    using strip[OF that] by (simp add: distFromYAxis_def)
  have bounds: "5 \<le> distFromYAxis q \<and> distFromYAxis q \<le> 10"
    if "q \<in> pointsOf (Solid ps (0, 1, 0) 360)" for q
  proof -
    from that obtain p t where "q = rotateAbout (0, 1, 0) t p" "p \<in> enclosed ps" by auto
    then show ?thesis using strip[of p] flat_dist[of p] by (simp add: dist_rotate_about_Y)
  qed
  have start: "p \<in> pointsOf (Solid ps (0, 1, 0) 360)" if "p \<in> enclosed ps" for p
  proof -
    obtain x y z where p: "p = (x, y, z)" by (cases p)
    have "rotateAbout (0, 1, 0) 0 p = p" by (simp add: p rotate_about_Y)
    with that have "\<exists>p' t. p = rotateAbout (0, 1, 0) t p' \<and> p' \<in> enclosed ps \<and> 0 \<le> t \<and> t \<le> 360"
      by (intro exI[of _ p] exI[of _ 0]) simp
    then show ?thesis by simp
  qed
  have inner: "\<exists>q \<in> pointsOf (Solid ps (0, 1, 0) 360). distFromYAxis q = 5"
    using start[OF corners(1)] by (intro bexI[of _ "(5, 0, 0)"]) (simp_all add: distFromYAxis_def)
  have outer: "\<exists>q \<in> pointsOf (Solid ps (0, 1, 0) 360). distFromYAxis q = 10"
    using start[OF corners(2)] by (intro bexI[of _ "(10, 0, 0)"]) (simp_all add: distFromYAxis_def)
  have round: "q' \<in> pointsOf (Solid ps (0, 1, 0) 360)"
    if q: "q \<in> pointsOf (Solid ps (0, 1, 0) 360)"
      and same: "yCoord q' = yCoord q" "distFromYAxis q' = distFromYAxis q" for q q'
  proof -
    from q obtain p t where qp: "q = rotateAbout (0, 1, 0) t p" and p: "p \<in> enclosed ps" by auto
    obtain x y z where xyz: "p = (x, y, z)" by (cases p)
    obtain x' y' z' where xyz': "q' = (x', y', z')" by (cases q')
    from strip[OF p] have z: "z = 0" and x: "5 \<le> x" by (simp_all add: xyz)
    from same(1) have y': "y' = y" by (simp add: qp xyz xyz' yCoord_rotate_about_Y)
    from same(2) have "distFromYAxis q' = distFromYAxis p"
      by (simp add: qp dist_rotate_about_Y)
    with flat_dist[OF p] have "distFromYAxis q' = x" by (simp add: xyz)
    then have "sqrt (x'\<^sup>2 + z'\<^sup>2) = x" by (simp add: xyz' distFromYAxis_def)
    then have "(sqrt (x'\<^sup>2 + z'\<^sup>2))\<^sup>2 = x\<^sup>2" by simp
    then have "x'\<^sup>2 + z'\<^sup>2 = x\<^sup>2" by simp
    with x obtain t' where "0 \<le> t'" "t' \<le> 360" "rotateAbout (0, 1, 0) t' (x, y, 0) = (x', y, z')"
      using full_turn_reaches[of x x' z' y] by auto
    with p have "\<exists>p' t. q' = rotateAbout (0, 1, 0) t p' \<and> p' \<in> enclosed ps \<and> 0 \<le> t \<and> t \<le> 360"
      by (intro exI[of _ p] exI[of _ t']) (simp add: xyz xyz' z y')
    then show ?thesis by simp
  qed
  from bounds inner outer round show ?thesis unfolding ringAroundY_def by blast
qed

lemma ring_playcanvas:
  "ringAroundY (pointsOf (Solid profilePoints_playcanvas (0, 1, 0) 360)) 5 10"
  using ring_of_strip[of profilePoints_playcanvas] enclosed_playcanvas corners_playcanvas by blast

lemma ring_babylonjs:
  "ringAroundY (pointsOf (Solid profilePoints_babylonjs (0, 1, 0) 360)) 5 10"
  using ring_of_strip[of profilePoints_babylonjs] enclosed_babylonjs corners_babylonjs by blast

lemma simple_playcanvas: "nonSelfIntersecting profilePoints_playcanvas"
  unfolding nonSelfIntersecting_def
  by (auto simp: profile_defs less_Suc_eq eval_nat_numeral nth_Cons' split: if_splits)

lemma simple_babylonjs: "nonSelfIntersecting profilePoints_babylonjs"
  unfolding nonSelfIntersecting_def
  by (auto simp: profile_defs less_Suc_eq eval_nat_numeral nth_Cons' split: if_splits)

lemma profiles_closed:
  "closedProfile profilePoints_playcanvas" "closedProfile profilePoints_babylonjs"
  by (simp_all add: profilePoints_playcanvas_def profilePoints_babylonjs_def
      closed_playcanvas closed_babylonjs)

lemmas kernel_simps = withKernel_def kernel_createPolylineWire_def kernel_createFaceFromWire_def
  kernel_revolve_def profiles_closed coplanar_playcanvas coplanar_babylonjs
  simple_playcanvas simple_babylonjs

lemma kernel_playcanvas:
  "(geometrySteps (trace_playcanvas (withKernel err pkg) w) \<noteq> [] \<longrightarrow>
      returned WireConstruction (trace_playcanvas (withKernel err pkg) w)
        = [Inl (Wire profilePoints_playcanvas)]) \<and>
   (FaceConstruction \<in> set (geometrySteps (trace_playcanvas (withKernel err pkg) w)) \<longrightarrow>
      returned FaceConstruction (trace_playcanvas (withKernel err pkg) w)
        = [Inl (Face profilePoints_playcanvas)]) \<and>
   (Revolution \<in> set (geometrySteps (trace_playcanvas (withKernel err pkg) w)) \<longrightarrow>
      returned Revolution (trace_playcanvas (withKernel err pkg) w)
        = [Inl (Solid profilePoints_playcanvas (0, 1, 0) 360)]) \<and>
   (result_playcanvas (withKernel err pkg) w = Inr () \<longrightarrow>
      returned Revolution (trace_playcanvas (withKernel err pkg) w)
        = [Inl (Solid profilePoints_playcanvas (0, 1, 0) 360)])"
  unfolding result_playcanvas_def trace_playcanvas_def start_playcanvas_def
  by (simp add: exec_simps kernel_simps observer_defs split: sum.split prod.split)

lemma kernel_babylonjs:
  "(geometrySteps (trace_babylonjs (withKernel err pkg) w) \<noteq> [] \<longrightarrow>
      returned WireConstruction (trace_babylonjs (withKernel err pkg) w)
        = [Inl (Wire profilePoints_babylonjs)]) \<and>
   (FaceConstruction \<in> set (geometrySteps (trace_babylonjs (withKernel err pkg) w)) \<longrightarrow>
      returned FaceConstruction (trace_babylonjs (withKernel err pkg) w)
        = [Inl (Face profilePoints_babylonjs)]) \<and>
   (Revolution \<in> set (geometrySteps (trace_babylonjs (withKernel err pkg) w)) \<longrightarrow>
      returned Revolution (trace_babylonjs (withKernel err pkg) w)
        = [Inl (Solid profilePoints_babylonjs (0, 1, 0) 360)]) \<and>
   (result_babylonjs (withKernel err pkg) w = Inr () \<longrightarrow>
      returned Revolution (trace_babylonjs (withKernel err pkg) w)
        = [Inl (Solid profilePoints_babylonjs (0, 1, 0) 360)])"
  unfolding result_babylonjs_def trace_babylonjs_def start_babylonjs_def
  by (simp add: exec_simps kernel_simps observer_defs split: sum.split prod.split)

lemma sample_kernel_playcanvas:
  "result_playcanvas (withKernel ''kernel error'' (kernelless_playcanvas 99)) 0 = Inr () \<and>
   geometrySteps (trace_playcanvas (withKernel ''kernel error'' (kernelless_playcanvas 99)) 0)
     = [WireConstruction, FaceConstruction, Revolution] \<and>
   wirePoints (trace_playcanvas (withKernel ''kernel error'' (kernelless_playcanvas 99)) 0)
     = [profilePoints_playcanvas] \<and>
   map (\<lambda>(r, ob). (ob direction, ob angle))
       (revolveRequests (trace_playcanvas (withKernel ''kernel error'' (kernelless_playcanvas 99)) 0))
     = [(Some (Vec3 (0, 1, 0)), Some (Num 360))] \<and>
   returned Revolution (trace_playcanvas (withKernel ''kernel error'' (kernelless_playcanvas 99)) 0)
     = [Inl (Solid profilePoints_playcanvas (0, 1, 0) 360)]"
  unfolding result_playcanvas_def trace_playcanvas_def start_playcanvas_def
  by (simp add: exec_simps kernel_simps observer_defs kernelless_playcanvas_def sampleCall_def)

lemma sample_kernel_babylonjs:
  "result_babylonjs (withKernel ''kernel error'' (kernelless_babylonjs 99)) 0 = Inr () \<and>
   geometrySteps (trace_babylonjs (withKernel ''kernel error'' (kernelless_babylonjs 99)) 0)
     = [WireConstruction, FaceConstruction, Revolution] \<and>
   wirePoints (trace_babylonjs (withKernel ''kernel error'' (kernelless_babylonjs 99)) 0)
     = [profilePoints_babylonjs] \<and>
   map (\<lambda>(r, ob). (ob direction, ob angle))
       (revolveRequests (trace_babylonjs (withKernel ''kernel error'' (kernelless_babylonjs 99)) 0))
     = [(Some (Vec3 (0, 1, 0)), Some (Num 360))] \<and>
   returned Revolution (trace_babylonjs (withKernel ''kernel error'' (kernelless_babylonjs 99)) 0)
     = [Inl (Solid profilePoints_babylonjs (0, 1, 0) 360)]"
  unfolding result_babylonjs_def trace_babylonjs_def start_babylonjs_def
  by (simp add: exec_simps kernel_simps observer_defs kernelless_babylonjs_def sampleCall_def
      renderLoopCallback_def)

text \<open>
  Claim C4.  The scripts run with \<open>offsetFromAxis = 5\<close>, \<open>profileWidth = 5\<close> and
  \<open>profileHeight = 3\<close>.  In every run, whatever the libraries do, a profile passed to wire
  construction spans exactly \<open>[5, 10]\<close> along X, and its points are at distances from the Y
  axis between 5 and 10, both attained; an option object passed to \<^verbatim>\<open>revolve\<close> has \<open>direction\<close>
  \<open>[0, 1, 0]\<close> and \<open>angle\<close> 360.  With the geometry kernel of the specification in the place of
  the three geometry functions (and any other libraries), the kernel accepts the profile of
  either script: whenever \<^verbatim>\<open>revolve\<close> is called it returns the solid swept by the face of the
  script's profile in a full turn around the Y axis, and a run in which every call succeeds
  has produced exactly this solid.  The points of this solid form a ring centred on the Y
  axis with inner radius 5 and outer radius 10: each point is at a distance between 5 and 10
  from the axis, both distances are attained, and with each point the solid holds the whole
  circle around the axis through it.
\<close>

theorem ring_scenario:
  "offsetFromAxis = 5 \<and> profileWidth = 5 \<and> profileHeight = 3 \<and>
   (\<forall>pts \<in> set (wirePoints (trace_playcanvas pkg w)) \<union> set (wirePoints (trace_babylonjs pkg' w')).
      minX pts = 5 \<and> maxX pts = 10 \<and>
      Min (set (map distFromYAxis pts)) = 5 \<and> Max (set (map distFromYAxis pts)) = 10 \<and>
      (\<forall>p \<in> set pts. 5 \<le> distFromYAxis p \<and> distFromYAxis p \<le> 10)) \<and>
   (\<forall>(r, ob) \<in> set (revolveRequests (trace_playcanvas pkg w)).
      ob direction = Some (Vec3 (0, 1, 0)) \<and> ob angle = Some (Num 360)) \<and>
   (\<forall>(r, ob) \<in> set (revolveRequests (trace_babylonjs pkg' w')).
      ob direction = Some (Vec3 (0, 1, 0)) \<and> ob angle = Some (Num 360)) \<and>
   (Revolution \<in> set (geometrySteps (trace_playcanvas (withKernel err kp) kw)) \<longrightarrow>
      returned Revolution (trace_playcanvas (withKernel err kp) kw)
        = [Inl (Solid profilePoints_playcanvas (0, 1, 0) 360)]) \<and>
   (result_playcanvas (withKernel err kp) kw = Inr () \<longrightarrow>
      returned Revolution (trace_playcanvas (withKernel err kp) kw)
        = [Inl (Solid profilePoints_playcanvas (0, 1, 0) 360)]) \<and>
   ringAroundY (pointsOf (Solid profilePoints_playcanvas (0, 1, 0) 360)) 5 10 \<and>
   (Revolution \<in> set (geometrySteps (trace_babylonjs (withKernel err' kp') kw')) \<longrightarrow>
      returned Revolution (trace_babylonjs (withKernel err' kp') kw')
        = [Inl (Solid profilePoints_babylonjs (0, 1, 0) 360)]) \<and>
   (result_babylonjs (withKernel err' kp') kw' = Inr () \<longrightarrow>
      returned Revolution (trace_babylonjs (withKernel err' kp') kw')
        = [Inl (Solid profilePoints_babylonjs (0, 1, 0) 360)]) \<and>
   ringAroundY (pointsOf (Solid profilePoints_babylonjs (0, 1, 0) 360)) 5 10"
proof -
  have profile: "\<forall>pts \<in> set (wirePoints (trace_playcanvas pkg w)) \<union> set (wirePoints (trace_babylonjs pkg' w')).
      minX pts = 5 \<and> maxX pts = 10 \<and>
      Min (set (map distFromYAxis pts)) = 5 \<and> Max (set (map distFromYAxis pts)) = 10 \<and>
      (\<forall>p \<in> set pts. 5 \<le> distFromYAxis p \<and> distFromYAxis p \<le> 10)"
    using wirePoints_playcanvas[of pkg w] wirePoints_babylonjs[of pkg' w']
      extent_playcanvas extent_babylonjs by blast
  have constants: "offsetFromAxis = 5 \<and> profileWidth = 5 \<and> profileHeight = 3"
    by (simp add: offsetFromAxis_def profileWidth_def profileHeight_def)
  have solid_playcanvas:
    "(Revolution \<in> set (geometrySteps (trace_playcanvas (withKernel err kp) kw)) \<longrightarrow>
        returned Revolution (trace_playcanvas (withKernel err kp) kw)
          = [Inl (Solid profilePoints_playcanvas (0, 1, 0) 360)]) \<and>
     (result_playcanvas (withKernel err kp) kw = Inr () \<longrightarrow>
        returned Revolution (trace_playcanvas (withKernel err kp) kw)
          = [Inl (Solid profilePoints_playcanvas (0, 1, 0) 360)])"
    using kernel_playcanvas[of err kp kw] by blast
  have solid_babylonjs:
    "(Revolution \<in> set (geometrySteps (trace_babylonjs (withKernel err' kp') kw')) \<longrightarrow>
        returned Revolution (trace_babylonjs (withKernel err' kp') kw')
          = [Inl (Solid profilePoints_babylonjs (0, 1, 0) 360)]) \<and>
     (result_babylonjs (withKernel err' kp') kw' = Inr () \<longrightarrow>
        returned Revolution (trace_babylonjs (withKernel err' kp') kw')
          = [Inl (Solid profilePoints_babylonjs (0, 1, 0) 360)])"
    using kernel_babylonjs[of err' kp' kw'] by blast
  from constants profile revolve_arguments_playcanvas[of pkg w]
    revolve_arguments_babylonjs[of pkg' w'] solid_playcanvas ring_playcanvas
    solid_babylonjs ring_babylonjs
  show ?thesis by blast
qed

text \<open>
  On the sample libraries run with the kernel of the specification, both scripts reach wire
  construction and the revolution, every call succeeds, and the solid is the ring.
\<close>

theorem ring_scenario_witness:
  "result_playcanvas (withKernel ''kernel error'' (kernelless_playcanvas 99)) 0 = Inr () \<and>
   result_babylonjs (withKernel ''kernel error'' (kernelless_babylonjs 99)) 0 = Inr () \<and>
   wirePoints (trace_playcanvas (withKernel ''kernel error'' (kernelless_playcanvas 99)) 0)
     = [profilePoints_playcanvas] \<and>
   wirePoints (trace_babylonjs (withKernel ''kernel error'' (kernelless_babylonjs 99)) 0)
     = [profilePoints_babylonjs] \<and>
   minX profilePoints_playcanvas = 5 \<and> maxX profilePoints_playcanvas = 10 \<and>
   minX profilePoints_babylonjs = 5 \<and> maxX profilePoints_babylonjs = 10 \<and>
   Min (set (map distFromYAxis profilePoints_playcanvas)) = 5 \<and>
   Max (set (map distFromYAxis profilePoints_playcanvas)) = 10 \<and>
   Min (set (map distFromYAxis profilePoints_babylonjs)) = 5 \<and>
   Max (set (map distFromYAxis profilePoints_babylonjs)) = 10 \<and>
   map (\<lambda>(r, ob). (ob direction, ob angle))
       (revolveRequests (trace_playcanvas (withKernel ''kernel error'' (kernelless_playcanvas 99)) 0))
     = [(Some (Vec3 (0, 1, 0)), Some (Num 360))] \<and>
   map (\<lambda>(r, ob). (ob direction, ob angle))
       (revolveRequests (trace_babylonjs (withKernel ''kernel error'' (kernelless_babylonjs 99)) 0))
     = [(Some (Vec3 (0, 1, 0)), Some (Num 360))] \<and>
   geometrySteps (trace_playcanvas (withKernel ''kernel error'' (kernelless_playcanvas 99)) 0)
     = [WireConstruction, FaceConstruction, Revolution] \<and>
   geometrySteps (trace_babylonjs (withKernel ''kernel error'' (kernelless_babylonjs 99)) 0)
     = [WireConstruction, FaceConstruction, Revolution] \<and>
   returned Revolution (trace_playcanvas (withKernel ''kernel error'' (kernelless_playcanvas 99)) 0)
     = [Inl (Solid profilePoints_playcanvas (0, 1, 0) 360)] \<and>
   returned Revolution (trace_babylonjs (withKernel ''kernel error'' (kernelless_babylonjs 99)) 0)
     = [Inl (Solid profilePoints_babylonjs (0, 1, 0) 360)] \<and>
   ringAroundY (pointsOf (Solid profilePoints_playcanvas (0, 1, 0) 360)) 5 10 \<and>
   ringAroundY (pointsOf (Solid profilePoints_babylonjs (0, 1, 0) 360)) 5 10"
  using ring_scenario[where pkg = "withKernel ''kernel error'' (kernelless_playcanvas 99)"
      and w = 0 and pkg' = "withKernel ''kernel error'' (kernelless_babylonjs 99)" and w' = 0
      and err = "''kernel error''" and kp = "kernelless_playcanvas 99" and kw = 0
      and err' = "''kernel error''" and kp' = "kernelless_babylonjs 99" and kw' = 0]
  by (simp add: sample_kernel_playcanvas sample_kernel_babylonjs offsetFromAxis_def
      profileWidth_def profileHeight_def)

section \<open>The host at the end of a run\<close>

lemmas hosted_simps = hosted_playcanvas_def hosted_babylonjs_def lift_def
  hosted_drawAnyAsync_def hosted_runRenderLoop_def hostAfter_def

lemma hosted_playcanvas_final:
  "fst (finalWorld_playcanvas (hosted_playcanvas pkg) (h, w)) =
   hostAfter h (trace_playcanvas (hosted_playcanvas pkg) (h, w))"
  unfolding finalWorld_playcanvas_def trace_playcanvas_def start_playcanvas_def
  by (simp add: exec_simps hosted_simps split: sum.split prod.split)

lemma hosted_babylonjs_final:
  "fst (finalWorld_babylonjs (hosted_babylonjs pkg) (h, w)) =
   hostAfter h (trace_babylonjs (hosted_babylonjs pkg) (h, w))"
  unfolding finalWorld_babylonjs_def trace_babylonjs_def start_babylonjs_def
  by (simp add: exec_simps hosted_simps split: sum.split prod.split)

lemma hosted_constructs [simp]:
  "construct (hosted_playcanvas pkg) = construct pkg"
  "construct (hosted_babylonjs pkg') = construct pkg'"
  by (simp_all add: hosted_playcanvas_def hosted_babylonjs_def)

lemma sample_construct:
  "construct (sample_playcanvas n) = sampleConstruct"
  "construct (sample_babylonjs n) = sampleConstruct"
  by (simp_all add: sample_playcanvas_def sample_babylonjs_def)

lemma sample_hosted_playcanvas_ok:
  "result_playcanvas (hosted_playcanvas (sample_playcanvas 99)) (nothingYet, 0) = Inr () \<and>
   trace_playcanvas (hosted_playcanvas (sample_playcanvas 99)) (nothingYet, 0) =
     okRun (steps_playcanvas (hosted_playcanvas (sample_playcanvas 99)) 0 50 1 3 5 6)"
  unfolding result_playcanvas_def trace_playcanvas_def start_playcanvas_def
  by (simp add: exec_simps shape_simps hosted_simps sample_playcanvas_def sampleCall_def)

lemma sample_hosted_babylonjs_ok:
  "result_babylonjs (hosted_babylonjs (sample_babylonjs 99)) (nothingYet, 0) = Inr () \<and>
   trace_babylonjs (hosted_babylonjs (sample_babylonjs 99)) (nothingYet, 0) =
     okRun (steps_babylonjs (hosted_babylonjs (sample_babylonjs 99)) 0 50 1 3 6 7)"
  unfolding result_babylonjs_def trace_babylonjs_def start_babylonjs_def
  by (simp add: exec_simps shape_simps hosted_simps sample_babylonjs_def sampleCall_def
      renderLoopCallback_def)

lemma sample_hosted_babylonjs_loop_failed:
  "result_babylonjs (hosted_babylonjs (sample_babylonjs 9)) (nothingYet, 0) = Inl ''rejected'' \<and>
   trace_babylonjs (hosted_babylonjs (sample_babylonjs 9)) (nothingYet, 0) =
     failedRun (steps_babylonjs (hosted_babylonjs (sample_babylonjs 9)) 0 50 1 3 6 7) 9 ''rejected''"
  unfolding result_babylonjs_def trace_babylonjs_def start_babylonjs_def
  by (simp add: exec_simps shape_simps hosted_simps sample_babylonjs_def sampleCall_def
      eval_nat_numeral renderLoopCallback_def)

lemma sample_babylonjs_loop_failed:
  "result_babylonjs (sample_babylonjs 9) 0 = Inl ''rejected'' \<and>
   trace_babylonjs (sample_babylonjs 9) 0 =
     failedRun (steps_babylonjs (sample_babylonjs 9) 0 50 1 3 6 7) 9 ''rejected''"
  unfolding result_babylonjs_def trace_babylonjs_def start_babylonjs_def
  by (simp add: exec_simps shape_simps sample_babylonjs_def sampleCall_def eval_nat_numeral
      renderLoopCallback_def)

section \<open>The drawing requests\<close>

lemma shown_solid_playcanvas:
  "\<forall>(ent, r, ob) \<in> set (drawRequests (fromCompletion Revolution (trace_playcanvas pkg w))).
     (\<exists>s. returned Revolution (trace_playcanvas pkg w) = [s] \<and> ent = OcctShape s \<and>
          visible ent ob = ShownShape s None (Some [Some (Str ''#444444''), Some (Num 0.5)])) \<and>
     ob drawFaces = Some (Bool False) \<and> ob drawEdges = Some (Bool True) \<and>
     ob faceColour = Some (Str ''#4488ff'') \<and> ob faceOpacity = Some (Num 0.3) \<and>
     (\<forall>c opa. visible ent (ob(faceColour \<mapsto> c, faceOpacity \<mapsto> opa)) = visible ent ob)"
proof (cases rule: playcanvas_cases[of pkg w])
  case ok
  then show ?thesis by (simp add: run_simps observer_defs solidDrawOptions_playcanvas_def)
next
  case fail
  from fail(1) fail(3) show ?thesis
    by (auto simp: enum_simps run_simps observer_defs solidDrawOptions_playcanvas_def)
qed

lemma shown_solid_babylonjs:
  "\<forall>(ent, r, ob) \<in> set (drawRequests (fromCompletion Revolution (trace_babylonjs pkg w))).
     (\<exists>s. returned Revolution (trace_babylonjs pkg w) = [s] \<and> ent = OcctShape s \<and>
          visible ent ob =
            ShownShape s
              (Some [Some (Str ''#4488ff''), Some (Num 0.3),
                     construct pkg DrawOcctShapeOptions drawTwoSided,
                     construct pkg DrawOcctShapeOptions backFaceColour,
                     construct pkg DrawOcctShapeOptions backFaceOpacity])
              (Some [Some (Str ''#444444''), Some (Num 0.5)])) \<and>
     ob drawFaces = Some (Bool True)"
proof (cases rule: babylonjs_cases[of pkg w])
  case ok
  then show ?thesis by (simp add: run_simps observer_defs solidDrawOptions_babylonjs_def)
next
  case fail
  from fail(1) fail(3) show ?thesis
    by (auto simp: enum_simps run_simps observer_defs solidDrawOptions_babylonjs_def)
qed


lemma screen_playcanvas:
  "(result_playcanvas (hosted_playcanvas pkg) (nothingYet, w) = Inr () \<longrightarrow>
     (\<exists>wire solid.
        returned WireConstruction (trace_playcanvas (hosted_playcanvas pkg) (nothingYet, w)) = [wire] \<and>
        returned Revolution (trace_playcanvas (hosted_playcanvas pkg) (nothingYet, w)) = [solid] \<and>
        screen (fst (finalWorld_playcanvas (hosted_playcanvas pkg) (nothingYet, w))) =
          [ ShownShape wire None (Some [Some (Str ''#ff0000''), Some (Num 8)]),
            ShownShape solid None (Some [Some (Str ''#444444''), Some (Num 0.5)]) ])) \<and>
   (\<forall>sh \<in> set (screen (fst (finalWorld_playcanvas (hosted_playcanvas pkg) (nothingYet, w)))).
      \<exists>s edges. sh = ShownShape s None (Some edges))"
proof (cases rule: playcanvas_cases[of "hosted_playcanvas pkg" "(nothingYet, w)"])
  case ok
  then show ?thesis
    by (simp add: hosted_playcanvas_final hostAfter_def nothingYet_def run_simps observer_defs
        wireDrawOptions_of_def solidDrawOptions_playcanvas_def)
next
  case fail
  from fail(1) fail(2) fail(3) show ?thesis
    by (auto simp: hosted_playcanvas_final hostAfter_def nothingYet_def enum_simps run_simps
        observer_defs wireDrawOptions_of_def solidDrawOptions_playcanvas_def)
qed

lemma screen_babylonjs:
  "result_babylonjs (hosted_babylonjs pkg) (nothingYet, w) = Inr () \<longrightarrow>
     (\<exists>wire solid.
        returned WireConstruction (trace_babylonjs (hosted_babylonjs pkg) (nothingYet, w)) = [wire] \<and>
        returned Revolution (trace_babylonjs (hosted_babylonjs pkg) (nothingYet, w)) = [solid] \<and>
        screen (fst (finalWorld_babylonjs (hosted_babylonjs pkg) (nothingYet, w))) =
          [ ShownShape wire None (Some [Some (Str ''#ff0000''), Some (Num 8)]),
            ShownPolyline axisPoints [Some (Str ''#ffff00''), Some (Num 4)],
            ShownShape solid
              (Some [Some (Str ''#4488ff''), Some (Num 0.3),
                     construct pkg DrawOcctShapeOptions drawTwoSided,
                     construct pkg DrawOcctShapeOptions backFaceColour,
                     construct pkg DrawOcctShapeOptions backFaceOpacity])
              (Some [Some (Str ''#444444''), Some (Num 0.5)]) ])"
proof (cases rule: babylonjs_cases[of "hosted_babylonjs pkg" "(nothingYet, w)"])
  case ok
  then show ?thesis
    by (simp add: hosted_babylonjs_final hostAfter_def nothingYet_def run_simps observer_defs
        wireDrawOptions_of_def solidDrawOptions_babylonjs_def axisOptions_of_def)
next
  case fail
  from fail(2) show ?thesis by simp
qed

text \<open>
  Claim C10.  A drawing request issued once the revolution has completed draws the handle the
  revolution returned.  In the PlayCanvas script its style record has \<open>drawFaces\<close> false and
  \<open>drawEdges\<close> true, while it does carry a \<open>faceColour\<close> and a \<open>faceOpacity\<close>; in the BabylonJS
  script it has \<open>drawFaces\<close> true.  This holds whatever properties
  \<^verbatim>\<open>new DrawOcctShapeOptions()\<close> starts with.  Under the renderer of the specification the
  solid of the PlayCanvas script is shown edges-only: what is visible of it has no faces, only
  edges of colour \<open>#444444\<close> and width 0.5, and is the same whatever \<open>faceColour\<close> and
  \<open>faceOpacity\<close> the style record is given; the solid of the BabylonJS script is shown with
  faces of colour \<open>#4488ff\<close> and opacity 0.3.  When every call of the PlayCanvas script has
  succeeded, the rendering surface holds the wire and the solid, both without faces, and at
  no time does it hold a face; when every call of the BabylonJS script has succeeded, it holds
  the wire, the axis polyline and the solid with its faces.
\<close>

theorem solid_draw_flags:
  "(\<forall>(ent, r, ob) \<in> set (drawRequests (fromCompletion Revolution (trace_playcanvas pkg w))).
      (\<exists>s. returned Revolution (trace_playcanvas pkg w) = [s] \<and> ent = OcctShape s \<and>
           visible ent ob = ShownShape s None (Some [Some (Str ''#444444''), Some (Num 0.5)])) \<and>
      ob drawFaces = Some (Bool False) \<and> ob drawEdges = Some (Bool True) \<and>
      ob faceColour = Some (Str ''#4488ff'') \<and> ob faceOpacity = Some (Num 0.3) \<and>
      (\<forall>c opa. visible ent (ob(faceColour \<mapsto> c, faceOpacity \<mapsto> opa)) = visible ent ob)) \<and>
   (\<forall>(ent, r, ob) \<in> set (drawRequests (fromCompletion Revolution (trace_babylonjs pkg' w'))).
      (\<exists>s. returned Revolution (trace_babylonjs pkg' w') = [s] \<and> ent = OcctShape s \<and>
           visible ent ob =
             ShownShape s
               (Some [Some (Str ''#4488ff''), Some (Num 0.3),
                      construct pkg' DrawOcctShapeOptions drawTwoSided,
                      construct pkg' DrawOcctShapeOptions backFaceColour,
                      construct pkg' DrawOcctShapeOptions backFaceOpacity])
               (Some [Some (Str ''#444444''), Some (Num 0.5)])) \<and>
      ob drawFaces = Some (Bool True)) \<and>
   (result_playcanvas (hosted_playcanvas hp) (nothingYet, hw) = Inr () \<longrightarrow>
     (\<exists>wire solid.
        returned WireConstruction (trace_playcanvas (hosted_playcanvas hp) (nothingYet, hw)) = [wire] \<and>
        returned Revolution (trace_playcanvas (hosted_playcanvas hp) (nothingYet, hw)) = [solid] \<and>
        screen (fst (finalWorld_playcanvas (hosted_playcanvas hp) (nothingYet, hw))) =
          [ ShownShape wire None (Some [Some (Str ''#ff0000''), Some (Num 8)]),
            ShownShape solid None (Some [Some (Str ''#444444''), Some (Num 0.5)]) ])) \<and>
   (\<forall>sh \<in> set (screen (fst (finalWorld_playcanvas (hosted_playcanvas hp) (nothingYet, hw)))).
      \<exists>s edges. sh = ShownShape s None (Some edges)) \<and>
   (result_babylonjs (hosted_babylonjs hp') (nothingYet, hw') = Inr () \<longrightarrow>
     (\<exists>wire solid.
        returned WireConstruction (trace_babylonjs (hosted_babylonjs hp') (nothingYet, hw')) = [wire] \<and>
        returned Revolution (trace_babylonjs (hosted_babylonjs hp') (nothingYet, hw')) = [solid] \<and>
        screen (fst (finalWorld_babylonjs (hosted_babylonjs hp') (nothingYet, hw'))) =
          [ ShownShape wire None (Some [Some (Str ''#ff0000''), Some (Num 8)]),
            ShownPolyline axisPoints [Some (Str ''#ffff00''), Some (Num 4)],
            ShownShape solid
              (Some [Some (Str ''#4488ff''), Some (Num 0.3),
                     construct hp' DrawOcctShapeOptions drawTwoSided,
                     construct hp' DrawOcctShapeOptions backFaceColour,
                     construct hp' DrawOcctShapeOptions backFaceOpacity])
              (Some [Some (Str ''#444444''), Some (Num 0.5)]) ]))"
  using shown_solid_playcanvas[of pkg w] shown_solid_babylonjs[of pkg' w']
    screen_playcanvas[of hp hw] screen_babylonjs[of hp' hw']
  by (intro conjI) blast+

text \<open>
  On the sample libraries, whose \<^verbatim>\<open>DrawOcctShapeOptions\<close> start with \<open>drawFaces\<close> true, each
  script issues exactly one such request, and under the host every call succeeds.
\<close>

theorem solid_draw_flags_witness:
  "map fst (drawRequests (fromCompletion Revolution (trace_playcanvas (sample_playcanvas 99) 0)))
     = [OcctShape 6] \<and>
   map fst (drawRequests (fromCompletion Revolution (trace_babylonjs (sample_babylonjs 99) 0)))
     = [OcctShape 7] \<and>
   map (\<lambda>(ent, r, ob). (ob drawFaces, ob drawEdges))
       (drawRequests (fromCompletion Revolution (trace_playcanvas (sample_playcanvas 99) 0))) =
     [(Some (Bool False), Some (Bool True))] \<and>
   map (\<lambda>(ent, r, ob). visible ent ob)
       (drawRequests (fromCompletion Revolution (trace_playcanvas (sample_playcanvas 99) 0))) =
     [ShownShape 6 None (Some [Some (Str ''#444444''), Some (Num 0.5)])] \<and>
   map (\<lambda>(ent, r, ob). visible ent (ob(faceColour \<mapsto> Str ''#000000'', faceOpacity \<mapsto> Num 1)))
       (drawRequests (fromCompletion Revolution (trace_playcanvas (sample_playcanvas 99) 0))) =
     [ShownShape 6 None (Some [Some (Str ''#444444''), Some (Num 0.5)])] \<and>
   map (\<lambda>(ent, r, ob). ob drawFaces)
       (drawRequests (fromCompletion Revolution (trace_babylonjs (sample_babylonjs 99) 0))) =
     [Some (Bool True)] \<and>
   sampleConstruct DrawOcctShapeOptions drawFaces = Some (Bool True) \<and>
   result_playcanvas (hosted_playcanvas (sample_playcanvas 99)) (nothingYet, 0) = Inr () \<and>
   screen (fst (finalWorld_playcanvas (hosted_playcanvas (sample_playcanvas 99)) (nothingYet, 0))) =
     [ ShownShape 3 None (Some [Some (Str ''#ff0000''), Some (Num 8)]),
       ShownShape 6 None (Some [Some (Str ''#444444''), Some (Num 0.5)]) ] \<and>
   result_babylonjs (hosted_babylonjs (sample_babylonjs 99)) (nothingYet, 0) = Inr () \<and>
   screen (fst (finalWorld_babylonjs (hosted_babylonjs (sample_babylonjs 99)) (nothingYet, 0))) =
     [ ShownShape 3 None (Some [Some (Str ''#ff0000''), Some (Num 8)]),
       ShownPolyline axisPoints [Some (Str ''#ffff00''), Some (Num 4)],
       ShownShape 7 (Some [Some (Str ''#4488ff''), Some (Num 0.3), None, None, None])
         (Some [Some (Str ''#444444''), Some (Num 0.5)]) ]"
  using solid_draw_flags[where pkg = "sample_playcanvas 99" and w = 0
      and pkg' = "sample_babylonjs 99" and w' = 0
      and hp = "sample_playcanvas 99" and hw = 0
      and hp' = "sample_babylonjs 99" and hw' = 0]
  by (simp add: sample_playcanvas_ok sample_babylonjs_ok sample_hosted_playcanvas_ok
      sample_hosted_babylonjs_ok run_simps observer_defs sample_construct sampleConstruct_def
      solidDrawOptions_playcanvas_def)


text \<open>
  Claim C3, as stated, fails for the PlayCanvas script: a run in which every call succeeds
  issues two drawing requests, for the wire and for the solid, and none for an axis
  indicator.
\<close>

theorem playcanvas_draws_no_axis:
  "result_playcanvas (sample_playcanvas 99) 0 = Inr () \<and>
   map fst (drawRequests (trace_playcanvas (sample_playcanvas 99) 0)) = [OcctShape 3, OcctShape 6]"
  by (simp add: sample_playcanvas_ok run_simps observer_defs)


lemma draws_of_playcanvas:
  "(\<exists>wire solid.
      prefix (drawRequests (trace_playcanvas pkg w))
        [ (OcctShape wire, 2, wireDrawOptions_of pkg),
          (OcctShape solid, 4, solidDrawOptions_playcanvas pkg) ] \<and>
      (drawRequests (trace_playcanvas pkg w) \<noteq> [] \<longrightarrow>
         returned WireConstruction (trace_playcanvas pkg w) = [wire]) \<and>
      (length (drawRequests (trace_playcanvas pkg w)) = 2 \<longrightarrow>
         returned Revolution (trace_playcanvas pkg w) = [solid])) \<and>
   (returned WireConstruction (trace_playcanvas pkg w) \<noteq> [] \<longrightarrow>
      drawRequests (trace_playcanvas pkg w) \<noteq> []) \<and>
   (returned Revolution (trace_playcanvas pkg w) \<noteq> [] \<longrightarrow>
      length (drawRequests (trace_playcanvas pkg w)) = 2) \<and>
   (result_playcanvas pkg w = Inr () \<longrightarrow> length (drawRequests (trace_playcanvas pkg w)) = 2) \<and>
   (\<forall>(ent, r, ob) \<in> set (drawRequests (trace_playcanvas pkg w)). \<exists>x. ent = OcctShape x) \<and>
   distinct (map (fst \<circ> snd) (drawRequests (trace_playcanvas pkg w)))"
proof (cases rule: playcanvas_cases[of pkg w])
  case ok
  then show ?thesis by (simp add: run_simps observer_defs)
next
  case fail
  from fail(1) fail(2) fail(3) show ?thesis
    by (auto simp: enum_simps run_simps observer_defs)
qed

lemma draws_of_babylonjs:
  "(\<exists>wire solid.
      prefix (drawRequests (trace_babylonjs pkg w))
        [ (OcctShape wire, 2, wireDrawOptions_of pkg),
          (Polyline3 axisPoints, 3, axisOptions_of pkg),
          (OcctShape solid, 5, solidDrawOptions_babylonjs pkg) ] \<and>
      (drawRequests (trace_babylonjs pkg w) \<noteq> [] \<longrightarrow>
         returned WireConstruction (trace_babylonjs pkg w) = [wire]) \<and>
      (length (drawRequests (trace_babylonjs pkg w)) = 3 \<longrightarrow>
         returned Revolution (trace_babylonjs pkg w) = [solid])) \<and>
   (returned WireConstruction (trace_babylonjs pkg w) \<noteq> [] \<longrightarrow>
      drawRequests (trace_babylonjs pkg w) \<noteq> []) \<and>
   (FaceConstruction \<in> set (geometrySteps (trace_babylonjs pkg w)) \<longrightarrow>
      2 \<le> length (drawRequests (trace_babylonjs pkg w))) \<and>
   (returned Revolution (trace_babylonjs pkg w) \<noteq> [] \<longrightarrow>
      length (drawRequests (trace_babylonjs pkg w)) = 3) \<and>
   (result_babylonjs pkg w = Inr () \<longrightarrow> length (drawRequests (trace_babylonjs pkg w)) = 3) \<and>
   distinct (map (fst \<circ> snd) (drawRequests (trace_babylonjs pkg w)))"
proof (cases rule: babylonjs_cases[of pkg w])
  case ok
  then show ?thesis by (simp add: run_simps observer_defs)
next
  case fail
  from fail(1) fail(2) fail(3) show ?thesis
    by (auto simp: enum_simps run_simps observer_defs)
qed


text \<open>
  Claim C3, amended.  In every run of the BabylonJS script the drawing requests issued are an
  initial part of three: the wire that wire construction returned, the axis polyline, and the
  solid that the revolution returned, in this order, each at most once.  The wire is drawn as
  soon as wire construction has returned it, the axis polyline before face construction is
  called, and the solid as soon as the revolution has returned it; so a run in which every
  call succeeds, and also one in which only the start of the render loop fails, issues exactly
  these three requests.  In every run of the PlayCanvas script the drawing requests issued
  are an initial part of two: the wire and the solid, drawn as soon as they have been
  returned; every entity this script draws is a shape of the kernel, never an axis polyline.
  Each request has a style record of its own, allocated by its own \<^verbatim>\<open>new\<close>: in every run the
  references of the style records are pairwise distinct.
\<close>

theorem one_draw_per_entity:
  "(\<exists>wire solid.
      prefix (drawRequests (trace_babylonjs pkg w))
        [ (OcctShape wire, 2, wireDrawOptions_of pkg),
          (Polyline3 axisPoints, 3, axisOptions_of pkg),
          (OcctShape solid, 5, solidDrawOptions_babylonjs pkg) ] \<and>
      (drawRequests (trace_babylonjs pkg w) \<noteq> [] \<longrightarrow>
         returned WireConstruction (trace_babylonjs pkg w) = [wire]) \<and>
      (length (drawRequests (trace_babylonjs pkg w)) = 3 \<longrightarrow>
         returned Revolution (trace_babylonjs pkg w) = [solid])) \<and>
   (returned WireConstruction (trace_babylonjs pkg w) \<noteq> [] \<longrightarrow>
      drawRequests (trace_babylonjs pkg w) \<noteq> []) \<and>
   (FaceConstruction \<in> set (geometrySteps (trace_babylonjs pkg w)) \<longrightarrow>
      2 \<le> length (drawRequests (trace_babylonjs pkg w))) \<and>
   (returned Revolution (trace_babylonjs pkg w) \<noteq> [] \<longrightarrow>
      length (drawRequests (trace_babylonjs pkg w)) = 3) \<and>
   (result_babylonjs pkg w = Inr () \<longrightarrow> length (drawRequests (trace_babylonjs pkg w)) = 3) \<and>
   distinct (map (fst \<circ> snd) (drawRequests (trace_babylonjs pkg w))) \<and>
   (\<exists>wire solid.
      prefix (drawRequests (trace_playcanvas pkg' w'))
        [ (OcctShape wire, 2, wireDrawOptions_of pkg'),
          (OcctShape solid, 4, solidDrawOptions_playcanvas pkg') ] \<and>
      (drawRequests (trace_playcanvas pkg' w') \<noteq> [] \<longrightarrow>
         returned WireConstruction (trace_playcanvas pkg' w') = [wire]) \<and>
      (length (drawRequests (trace_playcanvas pkg' w')) = 2 \<longrightarrow>
         returned Revolution (trace_playcanvas pkg' w') = [solid])) \<and>
   (returned WireConstruction (trace_playcanvas pkg' w') \<noteq> [] \<longrightarrow>
      drawRequests (trace_playcanvas pkg' w') \<noteq> []) \<and>
   (returned Revolution (trace_playcanvas pkg' w') \<noteq> [] \<longrightarrow>
      length (drawRequests (trace_playcanvas pkg' w')) = 2) \<and>
   (result_playcanvas pkg' w' = Inr () \<longrightarrow> length (drawRequests (trace_playcanvas pkg' w')) = 2) \<and>
   (\<forall>(ent, r, ob) \<in> set (drawRequests (trace_playcanvas pkg' w')). \<exists>x. ent = OcctShape x) \<and>
   distinct (map (fst \<circ> snd) (drawRequests (trace_playcanvas pkg' w')))"
  using draws_of_babylonjs[of pkg w] draws_of_playcanvas[of pkg' w']
  by (intro conjI) blast+

text \<open>
  On the sample libraries: runs in which every call succeeds, a run of the BabylonJS script
  in which only the start of the render loop fails, and a run of the PlayCanvas script in
  which \<^verbatim>\<open>revolve\<close> fails.
\<close>

theorem one_draw_per_entity_witness:
  "result_babylonjs (sample_babylonjs 99) 0 = Inr () \<and>
   result_playcanvas (sample_playcanvas 99) 0 = Inr () \<and>
   returned WireConstruction (trace_babylonjs (sample_babylonjs 99) 0) = [3] \<and>
   returned Revolution (trace_babylonjs (sample_babylonjs 99) 0) = [7] \<and>
   drawRequests (trace_babylonjs (sample_babylonjs 99) 0) =
     [ (OcctShape 3, 2, wireDrawOptions_of (sample_babylonjs 99)),
       (Polyline3 axisPoints, 3, axisOptions_of (sample_babylonjs 99)),
       (OcctShape 7, 5, solidDrawOptions_babylonjs (sample_babylonjs 99)) ] \<and>
   returned WireConstruction (trace_playcanvas (sample_playcanvas 99) 0) = [3] \<and>
   returned Revolution (trace_playcanvas (sample_playcanvas 99) 0) = [6] \<and>
   drawRequests (trace_playcanvas (sample_playcanvas 99) 0) =
     [ (OcctShape 3, 2, wireDrawOptions_of (sample_playcanvas 99)),
       (OcctShape 6, 4, solidDrawOptions_playcanvas (sample_playcanvas 99)) ] \<and>
   result_babylonjs (sample_babylonjs 9) 0 = Inl ''rejected'' \<and>
   map fst (drawRequests (trace_babylonjs (sample_babylonjs 9) 0)) =
     [OcctShape 3, Polyline3 axisPoints, OcctShape 7] \<and>
   result_playcanvas (sample_playcanvas 6) 0 = Inl ''rejected'' \<and>
   map fst (drawRequests (trace_playcanvas (sample_playcanvas 6) 0)) = [OcctShape 3]"
  using one_draw_per_entity[of "sample_babylonjs 99" 0 "sample_playcanvas 99" 0]
    one_draw_per_entity[of "sample_babylonjs 9" 0 "sample_playcanvas 6" 0]
  by (simp add: sample_playcanvas_ok sample_babylonjs_ok sample_babylonjs_loop_failed
      sample_playcanvas_failed run_simps observer_defs eval_nat_numeral)

section \<open>The render loop\<close>


text \<open>
  Claim C9, as stated, fails for the PlayCanvas script: a run in which every call succeeds
  never calls a render loop.
\<close>

theorem playcanvas_starts_no_render_loop:
  "result_playcanvas (sample_playcanvas 99) 0 = Inr () \<and>
   renderLoopStarts (trace_playcanvas (sample_playcanvas 99) 0) = []"
  by (simp add: sample_playcanvas_ok run_simps observer_defs)


lemma before_loop_babylonjs:
  "length (renderLoopStarts (trace_babylonjs pkg w)) \<le> 1 \<and>
   length (fromRenderLoop (trace_babylonjs pkg w)) \<le> 2 \<and>
   sequential (trace_babylonjs pkg w) \<and>
   (renderLoopStarts (trace_babylonjs pkg w) \<noteq> [] \<longrightarrow>
      sequential (beforeRenderLoop (trace_babylonjs pkg w)) \<and>
      rejections (beforeRenderLoop (trace_babylonjs pkg w)) = [] \<and>
      completedRequests (beforeRenderLoop (trace_babylonjs pkg w)) =
        issuedRequests (beforeRenderLoop (trace_babylonjs pkg w)) \<and>
      geometrySteps (beforeRenderLoop (trace_babylonjs pkg w)) =
        [WireConstruction, FaceConstruction, Revolution] \<and>
      length (drawRequests (beforeRenderLoop (trace_babylonjs pkg w))) = 3 \<and>
      drawRequests (trace_babylonjs pkg w) = drawRequests (beforeRenderLoop (trace_babylonjs pkg w)) \<and>
      geometrySteps (trace_babylonjs pkg w) = geometrySteps (beforeRenderLoop (trace_babylonjs pkg w))) \<and>
   (result_babylonjs pkg w = Inr () \<longrightarrow>
      (\<exists>engine callback.
         renderLoopStarts (trace_babylonjs pkg w) = [engine] \<and>
         last (trace_babylonjs pkg w) = Settled (RunRenderLoop engine callback) (Fulfilled [])))"
proof (cases rule: babylonjs_cases[of pkg w])
  case ok
  then show ?thesis
    by (simp add: run_simps observer_defs beforeRenderLoop_def completedRequests_def)
next
  case fail
  from fail(1) fail(2) fail(3) show ?thesis
    by (auto simp: enum_simps run_simps observer_defs beforeRenderLoop_def completedRequests_def)
qed

lemma end_playcanvas:
  "renderLoopStarts (trace_playcanvas pkg w) = [] \<and>
   (result_playcanvas pkg w = Inr () \<longrightarrow>
      (\<exists>bb solid.
         returned Revolution (trace_playcanvas pkg w) = [solid] \<and>
         last (butlast (trace_playcanvas pkg w)) =
           Settled (DrawAnyAsync bb (OcctShape solid) 4 (solidDrawOptions_playcanvas pkg))
             (Fulfilled []) \<and>
         last (trace_playcanvas pkg w) = ConsoleLog ''Revolved solid created and drawn.''))"
proof (cases rule: playcanvas_cases[of pkg w])
  case ok
  then show ?thesis by (simp add: run_simps observer_defs)
next
  case fail
  from fail(1) fail(2) fail(3) show ?thesis
    by (auto simp: enum_simps run_simps observer_defs)
qed

lemma frames_keep_host:
  "fst (frames n (renderLoopCallback (hosted_babylonjs pkg) scene) v) = fst v"
proof (induction n arbitrary: v)
  case 0
  then show ?case by simp
next
  case (Suc n)
  have "fst (snd (renderLoopCallback (hosted_babylonjs pkg) scene v)) = fst v"
    by (cases v) (simp add: renderLoopCallback_def hosted_babylonjs_def lift_def split: prod.split)
  with Suc show ?case by simp
qed

lemma loop_babylonjs:
  "sequential (trace_babylonjs (hosted_babylonjs pkg) (nothingYet, w)) \<and>
   (result_babylonjs (hosted_babylonjs pkg) (nothingYet, w) = Inr () \<longrightarrow>
      (\<exists>engine callback.
         renderLoopStarts (trace_babylonjs (hosted_babylonjs pkg) (nothingYet, w)) = [engine] \<and>
         last (trace_babylonjs (hosted_babylonjs pkg) (nothingYet, w)) =
           Settled (RunRenderLoop engine callback) (Fulfilled []) \<and>
         running (fst (finalWorld_babylonjs (hosted_babylonjs pkg) (nothingYet, w))) = [engine])) \<and>
   (\<forall>e. result_babylonjs (hosted_babylonjs pkg) (nothingYet, w) = Inl e \<longrightarrow>
      running (fst (finalWorld_babylonjs (hosted_babylonjs pkg) (nothingYet, w))) = []) \<and>
   (renderLoopStarts (trace_babylonjs (hosted_babylonjs pkg) (nothingYet, w)) \<noteq> [] \<longrightarrow>
      sequential (beforeRenderLoop (trace_babylonjs (hosted_babylonjs pkg) (nothingYet, w))) \<and>
      rejections (beforeRenderLoop (trace_babylonjs (hosted_babylonjs pkg) (nothingYet, w))) = [] \<and>
      geometrySteps (beforeRenderLoop (trace_babylonjs (hosted_babylonjs pkg) (nothingYet, w))) =
        [WireConstruction, FaceConstruction, Revolution] \<and>
      length (drawRequests (beforeRenderLoop (trace_babylonjs (hosted_babylonjs pkg) (nothingYet, w)))) = 3 \<and>
      length (screen (hostAfter nothingYet
        (beforeRenderLoop (trace_babylonjs (hosted_babylonjs pkg) (nothingYet, w))))) = 3)"
proof (cases rule: babylonjs_cases[of "hosted_babylonjs pkg" "(nothingYet, w)"])
  case ok
  then show ?thesis
    by (simp add: hosted_babylonjs_final hostAfter_def nothingYet_def run_simps observer_defs
        beforeRenderLoop_def)
next
  case fail
  from fail(1) fail(2) fail(3) show ?thesis
    by (auto simp: hosted_babylonjs_final hostAfter_def nothingYet_def enum_simps run_simps
        observer_defs beforeRenderLoop_def)
qed

lemma loop_playcanvas:
  "running (fst (finalWorld_playcanvas (hosted_playcanvas pkg) (nothingYet, w))) = [] \<and>
   (result_playcanvas (hosted_playcanvas pkg) (nothingYet, w) = Inr () \<longrightarrow>
      (\<exists>bb solid.
         returned Revolution (trace_playcanvas (hosted_playcanvas pkg) (nothingYet, w)) = [solid] \<and>
         last (butlast (trace_playcanvas (hosted_playcanvas pkg) (nothingYet, w))) =
           Settled (DrawAnyAsync bb (OcctShape solid) 4 (solidDrawOptions_playcanvas pkg))
             (Fulfilled []) \<and>
         last (trace_playcanvas (hosted_playcanvas pkg) (nothingYet, w)) =
           ConsoleLog ''Revolved solid created and drawn.''))"
proof (cases rule: playcanvas_cases[of "hosted_playcanvas pkg" "(nothingYet, w)"])
  case ok
  then show ?thesis
    by (simp add: hosted_playcanvas_final hostAfter_def nothingYet_def run_simps observer_defs
        solidDrawOptions_playcanvas_def)
next
  case fail
  from fail(1) fail(2) fail(3) show ?thesis
    by (auto simp: hosted_playcanvas_final hostAfter_def nothingYet_def enum_simps run_simps
        observer_defs)
qed


lemma hosted_loop_babylonjs:
  "(result_babylonjs (hosted_babylonjs pkg) (nothingYet, w) = Inr () \<longrightarrow>
      (\<exists>engine callback.
         last (trace_babylonjs (hosted_babylonjs pkg) (nothingYet, w)) =
           Settled (RunRenderLoop engine callback) (Fulfilled []) \<and>
         running (fst (finalWorld_babylonjs (hosted_babylonjs pkg) (nothingYet, w))) = [engine] \<and>
         (\<forall>n. fst (frames n callback (finalWorld_babylonjs (hosted_babylonjs pkg) (nothingYet, w)))
               = fst (finalWorld_babylonjs (hosted_babylonjs pkg) (nothingYet, w))))) \<and>
   (\<forall>e. result_babylonjs (hosted_babylonjs pkg) (nothingYet, w) = Inl e \<longrightarrow>
      running (fst (finalWorld_babylonjs (hosted_babylonjs pkg) (nothingYet, w))) = [])"
proof -
  have cb: "\<exists>scene. callback = renderLoopCallback (hosted_babylonjs pkg) scene"
    if "last (trace_babylonjs (hosted_babylonjs pkg) (nothingYet, w)) =
           Settled (RunRenderLoop engine callback) (Fulfilled [])"
      and "result_babylonjs (hosted_babylonjs pkg) (nothingYet, w) = Inr ()"
    for engine callback
  proof (cases rule: babylonjs_cases[of "hosted_babylonjs pkg" "(nothingYet, w)"])
    case ok
    with that(1) show ?thesis by (auto simp: run_simps)
  next
    case fail
    with that(2) show ?thesis by simp
  qed
  show ?thesis
    using loop_babylonjs[of pkg w] cb frames_keep_host[of _ pkg] by metis
qed

text \<open>
  Claim C9, amended.  The BabylonJS script starts the render loop at most once, and nothing
  follows the start but its own return; every call of a run is completed before the next is
  issued.  When the loop is started, every call issued before it has completed and none has
  failed, and these calls hold the three geometry steps and the three drawing requests of the
  run: the start is the final action, after all geometry construction and drawing calls
  have completed.  In a run in which every call succeeds the loop is started exactly once and
  its return is the last event; under the host of the specification the loop of that engine
  is then the one thing left running, and it stays so, with the host otherwise unchanged,
  however many frames the host schedules: the host calls the callback of the script once per
  frame, for as long as it pleases.  In a run that fails no loop is left running.  The
  PlayCanvas script never starts a render loop: in a run in which every call succeeds its
  last actions are the completion of the drawing call for the solid and \<^verbatim>\<open>console.log\<close>, and
  it leaves no loop running.
\<close>

theorem render_loop_last:
  "(length (renderLoopStarts (trace_babylonjs pkg w)) \<le> 1 \<and>
    length (fromRenderLoop (trace_babylonjs pkg w)) \<le> 2 \<and>
    sequential (trace_babylonjs pkg w) \<and>
    (renderLoopStarts (trace_babylonjs pkg w) \<noteq> [] \<longrightarrow>
       sequential (beforeRenderLoop (trace_babylonjs pkg w)) \<and>
       rejections (beforeRenderLoop (trace_babylonjs pkg w)) = [] \<and>
       completedRequests (beforeRenderLoop (trace_babylonjs pkg w)) =
         issuedRequests (beforeRenderLoop (trace_babylonjs pkg w)) \<and>
       geometrySteps (beforeRenderLoop (trace_babylonjs pkg w)) =
         [WireConstruction, FaceConstruction, Revolution] \<and>
       length (drawRequests (beforeRenderLoop (trace_babylonjs pkg w))) = 3 \<and>
       drawRequests (trace_babylonjs pkg w) = drawRequests (beforeRenderLoop (trace_babylonjs pkg w)) \<and>
       geometrySteps (trace_babylonjs pkg w) = geometrySteps (beforeRenderLoop (trace_babylonjs pkg w))) \<and>
    (result_babylonjs pkg w = Inr () \<longrightarrow>
       (\<exists>engine callback.
          renderLoopStarts (trace_babylonjs pkg w) = [engine] \<and>
          last (trace_babylonjs pkg w) = Settled (RunRenderLoop engine callback) (Fulfilled [])))) \<and>
   (renderLoopStarts (trace_playcanvas pkg' w') = [] \<and>
    (result_playcanvas pkg' w' = Inr () \<longrightarrow>
       (\<exists>bb solid.
          returned Revolution (trace_playcanvas pkg' w') = [solid] \<and>
          last (butlast (trace_playcanvas pkg' w')) =
            Settled (DrawAnyAsync bb (OcctShape solid) 4 (solidDrawOptions_playcanvas pkg'))
              (Fulfilled []) \<and>
          last (trace_playcanvas pkg' w') = ConsoleLog ''Revolved solid created and drawn.''))) \<and>
   ((result_babylonjs (hosted_babylonjs hp) (nothingYet, hw) = Inr () \<longrightarrow>
       (\<exists>engine callback.
          last (trace_babylonjs (hosted_babylonjs hp) (nothingYet, hw)) =
            Settled (RunRenderLoop engine callback) (Fulfilled []) \<and>
          running (fst (finalWorld_babylonjs (hosted_babylonjs hp) (nothingYet, hw))) = [engine] \<and>
          (\<forall>n. fst (frames n callback (finalWorld_babylonjs (hosted_babylonjs hp) (nothingYet, hw)))
                = fst (finalWorld_babylonjs (hosted_babylonjs hp) (nothingYet, hw))))) \<and>
    (\<forall>e. result_babylonjs (hosted_babylonjs hp) (nothingYet, hw) = Inl e \<longrightarrow>
       running (fst (finalWorld_babylonjs (hosted_babylonjs hp) (nothingYet, hw))) = [])) \<and>
   running (fst (finalWorld_playcanvas (hosted_playcanvas hp') (nothingYet, hw'))) = []"
  by (rule conjI[OF before_loop_babylonjs conjI[OF end_playcanvas
        conjI[OF hosted_loop_babylonjs conjunct1[OF loop_playcanvas]]]])

text \<open>
  On the sample libraries the BabylonJS script starts the loop on the engine that
  \<^verbatim>\<open>initBabylonJS\<close> returned, with the callback of the script; under the host the loop is
  still the one thing running after three frames.  When the start of the loop fails, nothing
  is left running.
\<close>

theorem render_loop_last_witness:
  "result_babylonjs (sample_babylonjs 99) 0 = Inr () \<and>
   renderLoopStarts (trace_babylonjs (sample_babylonjs 99) 0) = [50] \<and>
   sequential (beforeRenderLoop (trace_babylonjs (sample_babylonjs 99) 0)) \<and>
   rejections (beforeRenderLoop (trace_babylonjs (sample_babylonjs 99) 0)) = [] \<and>
   length (completedRequests (beforeRenderLoop (trace_babylonjs (sample_babylonjs 99) 0))) = 9 \<and>
   length (issuedRequests (beforeRenderLoop (trace_babylonjs (sample_babylonjs 99) 0))) = 9 \<and>
   geometrySteps (beforeRenderLoop (trace_babylonjs (sample_babylonjs 99) 0)) =
     [WireConstruction, FaceConstruction, Revolution] \<and>
   length (drawRequests (beforeRenderLoop (trace_babylonjs (sample_babylonjs 99) 0))) = 3 \<and>
   last (trace_babylonjs (sample_babylonjs 99) 0) =
     Settled (RunRenderLoop 50 (renderLoopCallback (sample_babylonjs 99) 0)) (Fulfilled []) \<and>
   result_playcanvas (sample_playcanvas 99) 0 = Inr () \<and>
   last (butlast (trace_playcanvas (sample_playcanvas 99) 0)) =
     Settled (DrawAnyAsync 1 (OcctShape 6) 4 (solidDrawOptions_playcanvas (sample_playcanvas 99)))
       (Fulfilled []) \<and>
   last (trace_playcanvas (sample_playcanvas 99) 0) = ConsoleLog ''Revolved solid created and drawn.'' \<and>
   result_babylonjs (hosted_babylonjs (sample_babylonjs 99)) (nothingYet, 0) = Inr () \<and>
   running (fst (finalWorld_babylonjs (hosted_babylonjs (sample_babylonjs 99)) (nothingYet, 0))) = [50] \<and>
   running (fst (frames 3 (renderLoopCallback (hosted_babylonjs (sample_babylonjs 99)) 0)
     (finalWorld_babylonjs (hosted_babylonjs (sample_babylonjs 99)) (nothingYet, 0)))) = [50] \<and>
   result_babylonjs (hosted_babylonjs (sample_babylonjs 9)) (nothingYet, 0) = Inl ''rejected'' \<and>
   running (fst (finalWorld_babylonjs (hosted_babylonjs (sample_babylonjs 9)) (nothingYet, 0))) = [] \<and>
   running (fst (finalWorld_playcanvas (hosted_playcanvas (sample_playcanvas 99)) (nothingYet, 0))) = []"
  using render_loop_last[where pkg = "sample_babylonjs 99" and w = 0
      and pkg' = "sample_playcanvas 99" and w' = 0
      and hp = "sample_babylonjs 99" and hw = 0
      and hp' = "sample_playcanvas 99" and hw' = 0]
    render_loop_last[where pkg = "sample_babylonjs 99" and w = 0
      and pkg' = "sample_playcanvas 99" and w' = 0
      and hp = "sample_babylonjs 9" and hw = 0
      and hp' = "sample_playcanvas 99" and hw' = 0]
  by (simp add: sample_babylonjs_ok sample_playcanvas_ok sample_hosted_babylonjs_ok
      sample_hosted_babylonjs_loop_failed run_simps observer_defs beforeRenderLoop_def
      completedRequests_def)

section \<open>Failure of a call\<close>

lemma failure_playcanvas:
  "(\<forall>e. result_playcanvas pkg w = Inl e \<longrightarrow> e \<in> set (rejections (trace_playcanvas pkg w))) \<and>
   (\<forall>e \<in> set (rejections (trace_playcanvas pkg w)).
      result_playcanvas pkg w = Inl e \<and> endsWithRejection e (trace_playcanvas pkg w) \<and>
      rejections (trace_playcanvas pkg w) = [e])"
proof (cases rule: playcanvas_cases[of pkg w])
  case ok
  then show ?thesis by (simp add: run_simps observer_defs)
next
  case fail
  from fail(1) fail(2) fail(3) show ?thesis
    by (auto simp: enum_simps run_simps observer_defs)
qed

lemma failure_babylonjs:
  "(\<forall>e. result_babylonjs pkg w = Inl e \<longrightarrow> e \<in> set (rejections (trace_babylonjs pkg w))) \<and>
   (\<forall>e \<in> set (rejections (trace_babylonjs pkg w)).
      result_babylonjs pkg w = Inl e \<and> endsWithRejection e (trace_babylonjs pkg w) \<and>
      rejections (trace_babylonjs pkg w) = [e])"
proof (cases rule: babylonjs_cases[of pkg w])
  case ok
  then show ?thesis by (simp add: run_simps observer_defs)
next
  case fail
  from fail(1) fail(2) fail(3) show ?thesis
    by (auto simp: enum_simps run_simps observer_defs)
qed

text \<open>
  Claim C6.  In every run of either script: when a call fails with \<open>e\<close>, the run ends in
  \<open>Inl e\<close>, the same value; the failure is the last event of the history, so no later step is
  performed and no call is made again; and it is the only failure.  Conversely a run that
  ends in \<open>Inl e\<close> got \<open>e\<close> from a failed call: the scripts raise no error of their own.
  The failures of a history are those of the libraries: the history replays their answers.
\<close>

theorem failure_aborts_and_propagates:
  "(\<forall>e \<in> set (rejections (trace_playcanvas pkg w)).
      result_playcanvas pkg w = Inl e \<and> endsWithRejection e (trace_playcanvas pkg w) \<and>
      rejections (trace_playcanvas pkg w) = [e]) \<and>
   (\<forall>e. result_playcanvas pkg w = Inl e \<longrightarrow> e \<in> set (rejections (trace_playcanvas pkg w))) \<and>
   (\<forall>e \<in> set (rejections (trace_babylonjs pkg' w')).
      result_babylonjs pkg' w' = Inl e \<and> endsWithRejection e (trace_babylonjs pkg' w') \<and>
      rejections (trace_babylonjs pkg' w') = [e]) \<and>
   (\<forall>e. result_babylonjs pkg' w' = Inl e \<longrightarrow> e \<in> set (rejections (trace_babylonjs pkg' w'))) \<and>
   replays (answer_playcanvas pkg) w (trace_playcanvas pkg w) \<and>
   replays (answer_babylonjs pkg') w' (trace_babylonjs pkg' w')"
  using failure_playcanvas[of pkg w] failure_babylonjs[of pkg' w']
    playcanvas_replays[of pkg w] babylonjs_replays[of pkg' w'] by blast

text \<open>
  Sample libraries whose \<^verbatim>\<open>revolve\<close> fails: both scripts stop there, with the error of the
  library; the solid is never drawn and the render loop never started.
\<close>

theorem failure_aborts_and_propagates_witness:
  "rejections (trace_playcanvas (sample_playcanvas 6) 0) = [''rejected''] \<and>
   result_playcanvas (sample_playcanvas 6) 0 = Inl ''rejected'' \<and>
   endsWithRejection ''rejected'' (trace_playcanvas (sample_playcanvas 6) 0) \<and>
   geometrySteps (trace_playcanvas (sample_playcanvas 6) 0) =
     [WireConstruction, FaceConstruction, Revolution] \<and>
   length (drawRequests (trace_playcanvas (sample_playcanvas 6) 0)) = 1 \<and>
   rejections (trace_babylonjs (sample_babylonjs 7) 0) = [''rejected''] \<and>
   result_babylonjs (sample_babylonjs 7) 0 = Inl ''rejected'' \<and>
   endsWithRejection ''rejected'' (trace_babylonjs (sample_babylonjs 7) 0) \<and>
   length (drawRequests (trace_babylonjs (sample_babylonjs 7) 0)) = 2 \<and>
   renderLoopStarts (trace_babylonjs (sample_babylonjs 7) 0) = []"
  using failure_aborts_and_propagates[of "sample_playcanvas 6" 0 "sample_babylonjs 7" 0]
  by (simp add: sample_playcanvas_failed sample_babylonjs_failed run_simps observer_defs
      eval_nat_numeral)

section \<open>Order of the calls and flow of the handles\<close>

lemma order_playcanvas:
  "sequential (trace_playcanvas pkg w) \<and>
   prefix (geometrySteps (trace_playcanvas pkg w)) [WireConstruction, FaceConstruction, Revolution] \<and>
   (result_playcanvas pkg w = Inr () \<longrightarrow>
      geometrySteps (trace_playcanvas pkg w) = [WireConstruction, FaceConstruction, Revolution]) \<and>
   set (geometrySteps (uptoCompletion WireConstruction (trace_playcanvas pkg w)))
     \<subseteq> {WireConstruction} \<and>
   set (geometrySteps (uptoCompletion FaceConstruction (trace_playcanvas pkg w)))
     \<subseteq> {WireConstruction, FaceConstruction} \<and>
   (\<forall>x \<in> set (faceInputs (trace_playcanvas pkg w)).
      returned WireConstruction (trace_playcanvas pkg w) = [x]) \<and>
   (\<forall>(r, ob) \<in> set (revolveRequests (trace_playcanvas pkg w)).
      \<exists>f. ob shape = Some (Host f) \<and> returned FaceConstruction (trace_playcanvas pkg w) = [f])"
proof (cases rule: playcanvas_cases[of pkg w])
  case ok
  then show ?thesis by (simp add: run_simps observer_defs revolveOptions_of_def)
next
  case fail
  from fail(1) fail(2) fail(3) show ?thesis
    by (auto simp: enum_simps run_simps observer_defs revolveOptions_of_def)
qed

lemma order_babylonjs:
  "sequential (trace_babylonjs pkg w) \<and>
   prefix (geometrySteps (trace_babylonjs pkg w)) [WireConstruction, FaceConstruction, Revolution] \<and>
   (result_babylonjs pkg w = Inr () \<longrightarrow>
      geometrySteps (trace_babylonjs pkg w) = [WireConstruction, FaceConstruction, Revolution]) \<and>
   set (geometrySteps (uptoCompletion WireConstruction (trace_babylonjs pkg w)))
     \<subseteq> {WireConstruction} \<and>
   set (geometrySteps (uptoCompletion FaceConstruction (trace_babylonjs pkg w)))
     \<subseteq> {WireConstruction, FaceConstruction} \<and>
   (\<forall>x \<in> set (faceInputs (trace_babylonjs pkg w)).
      returned WireConstruction (trace_babylonjs pkg w) = [x]) \<and>
   (\<forall>(r, ob) \<in> set (revolveRequests (trace_babylonjs pkg w)).
      \<exists>f. ob shape = Some (Host f) \<and> returned FaceConstruction (trace_babylonjs pkg w) = [f])"
proof (cases rule: babylonjs_cases[of pkg w])
  case ok
  then show ?thesis by (simp add: run_simps observer_defs revolveOptions_of_def)
next
  case fail
  from fail(1) fail(2) fail(3) show ?thesis
    by (auto simp: enum_simps run_simps observer_defs revolveOptions_of_def)
qed

lemma pipeline_of_playcanvas:
  "prefix (map calleeOf (issuedRequests (trace_playcanvas pkg w))) pipeline_playcanvas \<and>
   (result_playcanvas pkg w = Inr () \<longrightarrow>
      map calleeOf (issuedRequests (trace_playcanvas pkg w)) = pipeline_playcanvas \<and>
      consoleLines (trace_playcanvas pkg w) =
        [''Profile wire drawn.'', ''Revolved solid created and drawn.''])"
proof (cases rule: playcanvas_cases[of pkg w])
  case ok
  then show ?thesis by (simp add: run_simps observer_defs pipeline_playcanvas_def)
next
  case fail
  from fail(1) fail(2) fail(3) show ?thesis
    by (auto simp: enum_simps run_simps observer_defs pipeline_playcanvas_def)
qed

lemma pipeline_of_babylonjs:
  "prefix (map calleeOf (issuedRequests (trace_babylonjs pkg w))) pipeline_babylonjs \<and>
   (result_babylonjs pkg w = Inr () \<longrightarrow>
      map calleeOf (issuedRequests (trace_babylonjs pkg w)) = pipeline_babylonjs \<and>
      consoleLines (trace_babylonjs pkg w) =
        [''Profile wire drawn.'', ''Center axis drawn.'', ''Revolved solid created and drawn.''])"
proof (cases rule: babylonjs_cases[of pkg w])
  case ok
  then show ?thesis by (simp add: run_simps observer_defs pipeline_babylonjs_def)
next
  case fail
  from fail(1) fail(2) fail(3) show ?thesis
    by (auto simp: enum_simps run_simps observer_defs pipeline_babylonjs_def)
qed

lemma handles_playcanvas:
  "(\<forall>x \<in> set (faceInputs (trace_playcanvas pkg w)).
      returned WireConstruction (trace_playcanvas pkg w) = [x]) \<and>
   (\<forall>(r, ob) \<in> set (revolveRequests (trace_playcanvas pkg w)).
      \<exists>f. ob shape = Some (Host f) \<and> returned FaceConstruction (trace_playcanvas pkg w) = [f]) \<and>
   (\<forall>(ent, r, ob) \<in> set (drawRequests (fromCompletion Revolution (trace_playcanvas pkg w))).
      \<exists>s. ent = OcctShape s \<and> returned Revolution (trace_playcanvas pkg w) = [s]) \<and>
   (\<forall>(ent, r, ob) \<in> set (drawRequests (uptoCompletion Revolution (trace_playcanvas pkg w))).
      \<exists>x. ent = OcctShape x \<and> returned WireConstruction (trace_playcanvas pkg w) = [x]) \<and>
   length (returned WireConstruction (trace_playcanvas pkg w)) \<le> 1 \<and>
   length (returned FaceConstruction (trace_playcanvas pkg w)) \<le> 1 \<and>
   length (returned Revolution (trace_playcanvas pkg w)) \<le> 1 \<and>
   set (map (fst \<circ> snd) (drawRequests (trace_playcanvas pkg w)))
     \<inter> set (map fst (revolveRequests (trace_playcanvas pkg w))) = {}"
proof (cases rule: playcanvas_cases[of pkg w])
  case ok
  then show ?thesis by (simp add: run_simps observer_defs revolveOptions_of_def)
next
  case fail
  from fail(1) fail(2) fail(3) show ?thesis
    by (auto simp: enum_simps run_simps observer_defs revolveOptions_of_def)
qed

lemma handles_babylonjs:
  "(\<forall>x \<in> set (faceInputs (trace_babylonjs pkg w)).
      returned WireConstruction (trace_babylonjs pkg w) = [x]) \<and>
   (\<forall>(r, ob) \<in> set (revolveRequests (trace_babylonjs pkg w)).
      \<exists>f. ob shape = Some (Host f) \<and> returned FaceConstruction (trace_babylonjs pkg w) = [f]) \<and>
   (\<forall>(ent, r, ob) \<in> set (drawRequests (fromCompletion Revolution (trace_babylonjs pkg w))).
      \<exists>s. ent = OcctShape s \<and> returned Revolution (trace_babylonjs pkg w) = [s]) \<and>
   (\<forall>(ent, r, ob) \<in> set (drawRequests (uptoCompletion Revolution (trace_babylonjs pkg w))).
      ent = Polyline3 axisPoints \<or>
      (\<exists>x. ent = OcctShape x \<and> returned WireConstruction (trace_babylonjs pkg w) = [x])) \<and>
   length (returned WireConstruction (trace_babylonjs pkg w)) \<le> 1 \<and>
   length (returned FaceConstruction (trace_babylonjs pkg w)) \<le> 1 \<and>
   length (returned Revolution (trace_babylonjs pkg w)) \<le> 1 \<and>
   set (map (fst \<circ> snd) (drawRequests (trace_babylonjs pkg w)))
     \<inter> set (map fst (revolveRequests (trace_babylonjs pkg w))) = {}"
proof (cases rule: babylonjs_cases[of pkg w])
  case ok
  then show ?thesis by (simp add: run_simps observer_defs revolveOptions_of_def)
next
  case fail
  from fail(1) fail(2) fail(3) show ?thesis
    by (auto simp: enum_simps run_simps observer_defs revolveOptions_of_def)
qed

text \<open>
  Claim C2.  In every run of either script no two calls are ever in flight; the geometry
  steps issued are an initial part of wire construction, face construction, revolution, and
  all three when every call succeeds; no other geometry step is issued before wire
  construction has completed, and the revolution is not issued before face construction has
  completed; face construction is given the handle that wire construction returned, and
  the revolution the handle that face construction returned.
\<close>

theorem geometry_steps_in_order:
  "(sequential (trace_playcanvas pkg w) \<and>
   prefix (geometrySteps (trace_playcanvas pkg w)) [WireConstruction, FaceConstruction, Revolution] \<and>
   (result_playcanvas pkg w = Inr () \<longrightarrow>
      geometrySteps (trace_playcanvas pkg w) = [WireConstruction, FaceConstruction, Revolution]) \<and>
   set (geometrySteps (uptoCompletion WireConstruction (trace_playcanvas pkg w)))
     \<subseteq> {WireConstruction} \<and>
   set (geometrySteps (uptoCompletion FaceConstruction (trace_playcanvas pkg w)))
     \<subseteq> {WireConstruction, FaceConstruction} \<and>
   (\<forall>x \<in> set (faceInputs (trace_playcanvas pkg w)).
      returned WireConstruction (trace_playcanvas pkg w) = [x]) \<and>
   (\<forall>(r, ob) \<in> set (revolveRequests (trace_playcanvas pkg w)).
      \<exists>f. ob shape = Some (Host f) \<and> returned FaceConstruction (trace_playcanvas pkg w) = [f])) \<and>
   (sequential (trace_babylonjs pkg' w') \<and>
   prefix (geometrySteps (trace_babylonjs pkg' w')) [WireConstruction, FaceConstruction, Revolution] \<and>
   (result_babylonjs pkg' w' = Inr () \<longrightarrow>
      geometrySteps (trace_babylonjs pkg' w') = [WireConstruction, FaceConstruction, Revolution]) \<and>
   set (geometrySteps (uptoCompletion WireConstruction (trace_babylonjs pkg' w')))
     \<subseteq> {WireConstruction} \<and>
   set (geometrySteps (uptoCompletion FaceConstruction (trace_babylonjs pkg' w')))
     \<subseteq> {WireConstruction, FaceConstruction} \<and>
   (\<forall>x \<in> set (faceInputs (trace_babylonjs pkg' w')).
      returned WireConstruction (trace_babylonjs pkg' w') = [x]) \<and>
   (\<forall>(r, ob) \<in> set (revolveRequests (trace_babylonjs pkg' w')).
      \<exists>f. ob shape = Some (Host f) \<and> returned FaceConstruction (trace_babylonjs pkg' w') = [f]))"
  using order_playcanvas[of pkg w] order_babylonjs[of pkg' w'] by blast

text \<open>
  On the sample libraries both scripts perform the three steps.
\<close>

theorem geometry_steps_in_order_witness:
  "result_playcanvas (sample_playcanvas 99) 0 = Inr () \<and>
   sequential (trace_playcanvas (sample_playcanvas 99) 0) \<and>
   geometrySteps (trace_playcanvas (sample_playcanvas 99) 0) =
     [WireConstruction, FaceConstruction, Revolution] \<and>
   faceInputs (trace_playcanvas (sample_playcanvas 99) 0) = [3] \<and>
   returned WireConstruction (trace_playcanvas (sample_playcanvas 99) 0) = [3] \<and>
   map (\<lambda>(r, ob). ob shape) (revolveRequests (trace_playcanvas (sample_playcanvas 99) 0)) =
     [Some (Host 5)] \<and>
   returned FaceConstruction (trace_playcanvas (sample_playcanvas 99) 0) = [5] \<and>
   result_babylonjs (sample_babylonjs 99) 0 = Inr () \<and>
   sequential (trace_babylonjs (sample_babylonjs 99) 0) \<and>
   geometrySteps (trace_babylonjs (sample_babylonjs 99) 0) =
     [WireConstruction, FaceConstruction, Revolution] \<and>
   faceInputs (trace_babylonjs (sample_babylonjs 99) 0) = [3] \<and>
   returned WireConstruction (trace_babylonjs (sample_babylonjs 99) 0) = [3] \<and>
   map (\<lambda>(r, ob). ob shape) (revolveRequests (trace_babylonjs (sample_babylonjs 99) 0)) =
     [Some (Host 6)] \<and>
   returned FaceConstruction (trace_babylonjs (sample_babylonjs 99) 0) = [6]"
  using geometry_steps_in_order[of "sample_playcanvas 99" 0 "sample_babylonjs 99" 0]
  by (simp add: sample_playcanvas_ok sample_babylonjs_ok run_simps observer_defs
      revolveOptions_of_def)

text \<open>
  Claim C7.  Whatever the libraries answer, the functions called by a run are an initial part
  of one fixed list, the calls of the script in the order of its text; a run in which every
  call succeeds calls exactly that list and writes the same console lines.  Every history is
  the straight line of the steps, in which each handle is the one an earlier step returned,
  complete or cut at the first failed call.  (The conditional of \<open>renderLoopCallback\<close> is in a
  function that the script passes to the engine and does not run.)
\<close>

theorem straight_line:
  "(prefix (map calleeOf (issuedRequests (trace_playcanvas pkg w))) pipeline_playcanvas \<and>
   (result_playcanvas pkg w = Inr () \<longrightarrow>
      map calleeOf (issuedRequests (trace_playcanvas pkg w)) = pipeline_playcanvas \<and>
      consoleLines (trace_playcanvas pkg w) =
        [''Profile wire drawn.'', ''Revolved solid created and drawn.''])) \<and>
   (\<exists>scene app bb wire face solid.
      trace_playcanvas pkg w = okRun (steps_playcanvas pkg scene app bb wire face solid) \<or>
      (\<exists>k e. trace_playcanvas pkg w =
         failedRun (steps_playcanvas pkg scene app bb wire face solid) k e)) \<and>
   (prefix (map calleeOf (issuedRequests (trace_babylonjs pkg' w'))) pipeline_babylonjs \<and>
   (result_babylonjs pkg' w' = Inr () \<longrightarrow>
      map calleeOf (issuedRequests (trace_babylonjs pkg' w')) = pipeline_babylonjs \<and>
      consoleLines (trace_babylonjs pkg' w') =
        [''Profile wire drawn.'', ''Center axis drawn.'', ''Revolved solid created and drawn.''])) \<and>
   (\<exists>scene engine bb wire face solid.
      trace_babylonjs pkg' w' = okRun (steps_babylonjs pkg' scene engine bb wire face solid) \<or>
      (\<exists>k e. trace_babylonjs pkg' w' =
         failedRun (steps_babylonjs pkg' scene engine bb wire face solid) k e))"
proof -
  have "\<exists>scene app bb wire face solid.
      trace_playcanvas pkg w = okRun (steps_playcanvas pkg scene app bb wire face solid) \<or>
      (\<exists>k e. trace_playcanvas pkg w =
         failedRun (steps_playcanvas pkg scene app bb wire face solid) k e)"
    using playcanvas_run[of pkg w] by blast
  moreover have "\<exists>scene engine bb wire face solid.
      trace_babylonjs pkg' w' = okRun (steps_babylonjs pkg' scene engine bb wire face solid) \<or>
      (\<exists>k e. trace_babylonjs pkg' w' =
         failedRun (steps_babylonjs pkg' scene engine bb wire face solid) k e)"
    using babylonjs_run[of pkg' w'] by blast
  ultimately show ?thesis
    using pipeline_of_playcanvas[of pkg w] pipeline_of_babylonjs[of pkg' w'] by blast
qed

text \<open>
  Both complete runs exist on the sample libraries.
\<close>

theorem straight_line_witness:
  "result_playcanvas (sample_playcanvas 99) 0 = Inr () \<and>
   map calleeOf (issuedRequests (trace_playcanvas (sample_playcanvas 99) 0)) = pipeline_playcanvas \<and>
   consoleLines (trace_playcanvas (sample_playcanvas 99) 0) =
     [''Profile wire drawn.'', ''Revolved solid created and drawn.''] \<and>
   result_babylonjs (sample_babylonjs 99) 0 = Inr () \<and>
   map calleeOf (issuedRequests (trace_babylonjs (sample_babylonjs 99) 0)) = pipeline_babylonjs \<and>
   consoleLines (trace_babylonjs (sample_babylonjs 99) 0) =
     [''Profile wire drawn.'', ''Center axis drawn.'', ''Revolved solid created and drawn.'']"
  using straight_line[of "sample_playcanvas 99" 0 "sample_babylonjs 99" 0]
  by (simp add: sample_playcanvas_ok sample_babylonjs_ok)

text \<open>
  Claim C8.  In every run of either script: a wire handle given to face construction is the
  one handle that wire construction returned; the \<open>shape\<close> given to the revolution is the one
  handle that face construction returned; an entity drawn once the revolution has completed
  is the one handle that the revolution returned; a shape drawn before that is the handle
  that wire construction returned (the one face construction is given afterwards); each
  geometry step returns at most one handle; and no style record of a drawing request is
  the option object of a revolution.  The handles a history records as returned are the
  ones the library functions returned: the history replays their answers.
\<close>

theorem handles_passed_unchanged:
  "((\<forall>x \<in> set (faceInputs (trace_playcanvas pkg w)).
      returned WireConstruction (trace_playcanvas pkg w) = [x]) \<and>
   (\<forall>(r, ob) \<in> set (revolveRequests (trace_playcanvas pkg w)).
      \<exists>f. ob shape = Some (Host f) \<and> returned FaceConstruction (trace_playcanvas pkg w) = [f]) \<and>
   (\<forall>(ent, r, ob) \<in> set (drawRequests (fromCompletion Revolution (trace_playcanvas pkg w))).
      \<exists>s. ent = OcctShape s \<and> returned Revolution (trace_playcanvas pkg w) = [s]) \<and>
   (\<forall>(ent, r, ob) \<in> set (drawRequests (uptoCompletion Revolution (trace_playcanvas pkg w))).
      \<exists>x. ent = OcctShape x \<and> returned WireConstruction (trace_playcanvas pkg w) = [x]) \<and>
   length (returned WireConstruction (trace_playcanvas pkg w)) \<le> 1 \<and>
   length (returned FaceConstruction (trace_playcanvas pkg w)) \<le> 1 \<and>
   length (returned Revolution (trace_playcanvas pkg w)) \<le> 1 \<and>
   set (map (fst \<circ> snd) (drawRequests (trace_playcanvas pkg w)))
     \<inter> set (map fst (revolveRequests (trace_playcanvas pkg w))) = {}) \<and>
   ((\<forall>x \<in> set (faceInputs (trace_babylonjs pkg' w')).
      returned WireConstruction (trace_babylonjs pkg' w') = [x]) \<and>
   (\<forall>(r, ob) \<in> set (revolveRequests (trace_babylonjs pkg' w')).
      \<exists>f. ob shape = Some (Host f) \<and> returned FaceConstruction (trace_babylonjs pkg' w') = [f]) \<and>
   (\<forall>(ent, r, ob) \<in> set (drawRequests (fromCompletion Revolution (trace_babylonjs pkg' w'))).
      \<exists>s. ent = OcctShape s \<and> returned Revolution (trace_babylonjs pkg' w') = [s]) \<and>
   (\<forall>(ent, r, ob) \<in> set (drawRequests (uptoCompletion Revolution (trace_babylonjs pkg' w'))).
      ent = Polyline3 axisPoints \<or>
      (\<exists>x. ent = OcctShape x \<and> returned WireConstruction (trace_babylonjs pkg' w') = [x])) \<and>
   length (returned WireConstruction (trace_babylonjs pkg' w')) \<le> 1 \<and>
   length (returned FaceConstruction (trace_babylonjs pkg' w')) \<le> 1 \<and>
   length (returned Revolution (trace_babylonjs pkg' w')) \<le> 1 \<and>
   set (map (fst \<circ> snd) (drawRequests (trace_babylonjs pkg' w')))
     \<inter> set (map fst (revolveRequests (trace_babylonjs pkg' w'))) = {}) \<and>
   replays (answer_playcanvas pkg) w (trace_playcanvas pkg w) \<and>
   replays (answer_babylonjs pkg') w' (trace_babylonjs pkg' w')"
  using handles_playcanvas[of pkg w] handles_babylonjs[of pkg' w']
    playcanvas_replays[of pkg w] babylonjs_replays[of pkg' w'] by blast

text \<open>
  The handles and references of the runs on the sample libraries.
\<close>

theorem handles_passed_unchanged_witness:
  "returned WireConstruction (trace_playcanvas (sample_playcanvas 99) 0) = [3] \<and>
   faceInputs (trace_playcanvas (sample_playcanvas 99) 0) = [3] \<and>
   returned FaceConstruction (trace_playcanvas (sample_playcanvas 99) 0) = [5] \<and>
   map (\<lambda>(r, ob). ob shape) (revolveRequests (trace_playcanvas (sample_playcanvas 99) 0)) =
     [Some (Host 5)] \<and>
   returned Revolution (trace_playcanvas (sample_playcanvas 99) 0) = [6] \<and>
   map fst (drawRequests (uptoCompletion Revolution (trace_playcanvas (sample_playcanvas 99) 0))) =
     [OcctShape 3] \<and>
   map fst (drawRequests (fromCompletion Revolution (trace_playcanvas (sample_playcanvas 99) 0))) =
     [OcctShape 6] \<and>
   returned WireConstruction (trace_babylonjs (sample_babylonjs 99) 0) = [3] \<and>
   faceInputs (trace_babylonjs (sample_babylonjs 99) 0) = [3] \<and>
   returned FaceConstruction (trace_babylonjs (sample_babylonjs 99) 0) = [6] \<and>
   map (\<lambda>(r, ob). ob shape) (revolveRequests (trace_babylonjs (sample_babylonjs 99) 0)) =
     [Some (Host 6)] \<and>
   returned Revolution (trace_babylonjs (sample_babylonjs 99) 0) = [7] \<and>
   map fst (drawRequests (uptoCompletion Revolution (trace_babylonjs (sample_babylonjs 99) 0))) =
     [OcctShape 3, Polyline3 axisPoints] \<and>
   map fst (drawRequests (fromCompletion Revolution (trace_babylonjs (sample_babylonjs 99) 0))) =
     [OcctShape 7] \<and>
   map (fst \<circ> snd) (drawRequests (trace_babylonjs (sample_babylonjs 99) 0)) = [2, 3, 5] \<and>
   map fst (revolveRequests (trace_babylonjs (sample_babylonjs 99) 0)) = [4]"
  using handles_passed_unchanged[of "sample_playcanvas 99" 0 "sample_babylonjs 99" 0]
  by (simp add: sample_playcanvas_ok sample_babylonjs_ok run_simps observer_defs
      revolveOptions_of_def)

end
